theory Spec2Isabelle
  imports Complex_Main "HOL-Library.Multiset"
begin

section \<open>Python strings\<close>

text \<open>
  A Python \<open>str\<close> is modelled as a \<open>string\<close>; a character stands for the code
  point of the same number, so the model covers text over the code points below 256.
\<close>

definition startswith :: "string \<Rightarrow> string \<Rightarrow> bool" where
  \<comment> \<open>\<open>s.startswith(p)\<close>\<close>
  "startswith p s = (take (length p) s = p)"

definition endswith :: "string \<Rightarrow> string \<Rightarrow> bool" where
  \<comment> \<open>\<open>s.endswith(p)\<close>\<close>
  "endswith p s = (length p \<le> length s \<and> drop (length s - length p) s = p)"

definition is_space :: "char \<Rightarrow> bool" where
  \<comment> \<open>\<open>c.isspace()\<close> on the code points below 256\<close>
  "is_space c = (c = CHR 0x09 \<or> c = CHR 0x0A \<or> c = CHR 0x0B \<or> c = CHR 0x0C \<or> c = CHR 0x0D
     \<or> c = CHR 0x1C \<or> c = CHR 0x1D \<or> c = CHR 0x1E \<or> c = CHR 0x1F \<or> c = CHR 0x20
     \<or> c = CHR 0x85 \<or> c = CHR 0xA0)"

fun split_from :: "string \<Rightarrow> string \<Rightarrow> string list" where
  \<comment> \<open>the second argument of \<open>split_from\<close> is the token being read, reversed\<close>
  "split_from [] tok = (if tok = [] then [] else [rev tok])"
| "split_from (c # cs) tok =
     (if is_space c then (if tok = [] then split_from cs [] else rev tok # split_from cs [])
      else split_from cs (c # tok))"

definition py_split :: "string \<Rightarrow> string list" where
  \<comment> \<open>\<open>s.split()\<close>: the maximal runs of non-whitespace characters\<close>
  "py_split s = split_from s []"

definition upper_chars :: "char list" where
  "upper_chars = ''ABCDEFGHIJKLMNOPQRSTUVWXYZ'' @
     [CHR 0xC0, CHR 0xC1, CHR 0xC2, CHR 0xC3, CHR 0xC4, CHR 0xC5, CHR 0xC6, CHR 0xC7, CHR 0xC8, CHR 0xC9, CHR 0xCA, CHR 0xCB, CHR 0xCC, CHR 0xCD, CHR 0xCE, CHR 0xCF, CHR 0xD0, CHR 0xD1, CHR 0xD2, CHR 0xD3, CHR 0xD4, CHR 0xD5, CHR 0xD6, CHR 0xD8, CHR 0xD9, CHR 0xDA, CHR 0xDB, CHR 0xDC, CHR 0xDD, CHR 0xDE]"

definition lower_chars :: "char list" where
  "lower_chars = ''abcdefghijklmnopqrstuvwxyz'' @
     [CHR 0xE0, CHR 0xE1, CHR 0xE2, CHR 0xE3, CHR 0xE4, CHR 0xE5, CHR 0xE6, CHR 0xE7, CHR 0xE8, CHR 0xE9, CHR 0xEA, CHR 0xEB, CHR 0xEC, CHR 0xED, CHR 0xEE, CHR 0xEF, CHR 0xF0, CHR 0xF1, CHR 0xF2, CHR 0xF3, CHR 0xF4, CHR 0xF5, CHR 0xF6, CHR 0xF8, CHR 0xF9, CHR 0xFA, CHR 0xFB, CHR 0xFC, CHR 0xFD, CHR 0xFE]"

definition py_lower_char :: "char \<Rightarrow> char" where
  \<comment> \<open>the letters A to Z and the capital letters of Latin-1 have a lower-case form\<close>
  "py_lower_char c = (case map_of (zip upper_chars lower_chars) c of Some l \<Rightarrow> l | None \<Rightarrow> c)"

definition py_lower :: "string \<Rightarrow> string" where
  \<comment> \<open>\<open>s.lower()\<close>\<close>
  "py_lower s = map py_lower_char s"

fun lines_from :: "string \<Rightarrow> string \<Rightarrow> string list" where
  \<comment> \<open>the second argument is the line being read, reversed\<close>
  "lines_from [] cur = (if cur = [] then [] else [rev cur])"
| "lines_from (c # cs) cur =
     (if c = CHR 0x0A then rev (c # cur) # lines_from cs [] else lines_from cs (c # cur))"

definition py_lines :: "string \<Rightarrow> string list" where
  \<comment> \<open>what \<open>for line in f\<close> yields on a text file holding the given text: each line
      with its terminating newline, the last one possibly without\<close>
  "py_lines s = lines_from s []"

definition splitext_root :: "string \<Rightarrow> string" where
  \<comment> \<open>\<open>os.path.splitext(p)[0]\<close> on a name without a path separator: the name up to its last
      dot, unless only dots precede that dot\<close>
  "splitext_root p =
     (if CHR ''.'' \<notin> set p then p
      else let root = take (length p - length (takeWhile (\<lambda>c. c \<noteq> CHR ''.'') (rev p)) - 1) p
           in if filter (\<lambda>c. c \<noteq> CHR ''.'') root = [] then p else root)"

section \<open>The job supervisor: \<open>run_docking\<close> (docking.py)\<close>

text \<open>
  The engine is the environment of \<open>run_docking\<close>: \<open>subprocess.run\<close> either raises or
  completes with a return code and the text of its standard output. All ligands of a batch
  share the receptor, the box and the search parameters, so the engine's answer is given
  per ligand file name. The text of the standard output is taken as Python holds it, with
  \<open>\n\<close> as the only line terminator. \<open>Raised\<close> is an exception of \<open>subprocess.run\<close>; writing
  and reading the capture file and the summary log succeed, and the summary log is not one
  of the capture files.
\<close>

datatype engine_result = Raised | Completed int string

record docking_result =
  ligand :: string
  binding_energy :: string

text \<open>
  What a run leaves behind: the engine invocations in order (ligand file and name of the
  pose file passed as \<open>--out\<close>), the capture files of the output folder by file name, the
  text of the summary log, and the list \<open>docking_results\<close> that is returned.
\<close>

record docking_state =
  invocations :: "(string \<times> string) list"
  out_files :: "string \<rightharpoonup> string"
  summary_log :: string
  docking_results :: "docking_result list"

definition result_marker :: string where
  "result_marker = ''REMARK VINA RESULT:''"

fun scan_log :: "string list \<Rightarrow> string option" where
  \<comment> \<open>the loop over the lines of the capture file: it stops at the first line that starts
      with the marker, whether or not that line has a fourth token\<close>
  "scan_log [] = None"
| "scan_log (line # rest) =
     (if startswith result_marker line
      then (let parts = py_split line in if length parts \<ge> 4 then Some (parts ! 3) else None)
      else scan_log rest)"

definition read_binding_energy :: "(string \<rightharpoonup> string) \<Rightarrow> string \<Rightarrow> string option" where
  \<comment> \<open>the capture file is read only if it exists and is not empty\<close>
  "read_binding_energy files vina_log_file =
     (case files vina_log_file of
        None \<Rightarrow> None
      | Some text \<Rightarrow> if length text > 0 then scan_log (py_lines text) else None)"

definition is_ligand_file :: "string \<Rightarrow> bool" where
  "is_ligand_file ligand_file = endswith ''.pdbqt'' (py_lower ligand_file)"

definition summary_row :: "string \<Rightarrow> string \<Rightarrow> string" where
  "summary_row ligand_file energy = ligand_file @ [CHR 0x09] @ energy @ [CHR 0x0A]"

definition dock_ligand :: "(string \<Rightarrow> engine_result) \<Rightarrow> docking_state \<Rightarrow> string \<Rightarrow> docking_state" where
  \<comment> \<open>the body of the loop over \<open>os.listdir(ligand_folder)\<close>\<close>
  "dock_ligand engine st ligand_file =
     (if is_ligand_file ligand_file then
        let base_name = splitext_root ligand_file;
            output_file = ''docking_'' @ base_name @ ''.pdbqt'';
            vina_log_file = ''docking_'' @ base_name @ ''.log'';
            st1 = st\<lparr>invocations := invocations st @ [(ligand_file, output_file)]\<rparr>
        in (case engine ligand_file of
              Raised \<Rightarrow> st1
            | Completed returncode stdout \<Rightarrow>
                if returncode \<noteq> 0 then st1
                else let st2 = st1\<lparr>out_files := (out_files st1)(vina_log_file \<mapsto> stdout)\<rparr>
                     in (case read_binding_energy (out_files st2) vina_log_file of
                           None \<Rightarrow> st2
                         | Some energy \<Rightarrow>
                             st2\<lparr>summary_log := summary_log st2 @ summary_row ligand_file energy,
                                 docking_results := docking_results st2 @
                                   [\<lparr>ligand = ligand_file, binding_energy = energy\<rparr>]\<rparr>))
      else st)"

definition summary_header :: string where
  "summary_header = ''Ligand'' @ [CHR 0x09] @ ''Binding Energy (kcal/mol)'' @ [CHR 0x0A]"

definition run_docking ::
  "(string \<Rightarrow> engine_result) \<Rightarrow> (string \<rightharpoonup> string) \<Rightarrow> string list \<Rightarrow> docking_state" where
  \<comment> \<open>\<open>files\<close> is the output folder before the run, \<open>listing\<close> is \<open>os.listdir(ligand_folder)\<close>\<close>
  "run_docking engine files listing =
     foldl (dock_ligand engine)
       \<lparr>invocations = [], out_files = files, summary_log = summary_header, docking_results = []\<rparr>
       listing"

text \<open>
  The outcome of one job, read off the code path of \<open>dock_ligand\<close>: the engine completed
  with return code 0, its output is not empty, and the scan of its lines found a score.
\<close>

definition job_energy :: "(string \<Rightarrow> engine_result) \<Rightarrow> string \<Rightarrow> string option" where
  "job_energy engine ligand_file =
     (case engine ligand_file of
        Raised \<Rightarrow> None
      | Completed returncode stdout \<Rightarrow>
          if returncode = 0 \<and> stdout \<noteq> [] then scan_log (py_lines stdout) else None)"

definition job_records :: "(string \<Rightarrow> engine_result) \<Rightarrow> string \<Rightarrow> docking_result list" where
  "job_records engine ligand_file =
     (if is_ligand_file ligand_file
      then (case job_energy engine ligand_file of
              None \<Rightarrow> []
            | Some energy \<Rightarrow> [\<lparr>ligand = ligand_file, binding_energy = energy\<rparr>])
      else [])"

definition summary_rows :: "docking_result list \<Rightarrow> string" where
  "summary_rows rs = concat (map (\<lambda>r. summary_row (ligand r) (binding_energy r)) rs)"

definition fourth_token :: "string list \<Rightarrow> string option" where
  \<comment> \<open>the extraction rule in the words of the specification: the fourth whitespace-separated
      token of the first line that begins with the marker\<close>
  "fourth_token ls =
     (case find (startswith result_marker) ls of
        None \<Rightarrow> None
      | Some line \<Rightarrow> if length (py_split line) \<ge> 4 then Some (py_split line ! 3) else None)"

text \<open>
  The successful ligands in the words of the specification: the engine process of the
  ligand ends with status 0, and the first line of its output that begins with the marker
  has a fourth token, which is the score. Every other ligand is failed or unparseable.
\<close>

definition ligand_score :: "(string \<Rightarrow> engine_result) \<Rightarrow> string \<Rightarrow> string option" where
  "ligand_score engine ligand_file =
     (case engine ligand_file of
        Raised \<Rightarrow> None
      | Completed returncode stdout \<Rightarrow>
          if returncode = 0 then fourth_token (py_lines stdout) else None)"

definition example_result_line :: string where
  "example_result_line = ''REMARK VINA RESULT: -7.2 0 0''"

definition demo_engine :: "string \<Rightarrow> engine_result" where
  \<comment> \<open>an engine for the examples: two ligands dock, one fails, one prints no result line\<close>
  "demo_engine ligand_file =
     (if ligand_file = ''a.pdbqt''
        then Completed 0 (''mode 1'' @ [CHR 0x0A] @ example_result_line @ [CHR 0x0A] @
                          ''REMARK VINA RESULT: -6.9 1 2'' @ [CHR 0x0A])
      else if ligand_file = ''b.pdbqt'' then Completed 1 ''REMARK VINA RESULT: -9.9 0 0''
      else if ligand_file = ''c.PDBQT'' then Completed 0 ''REMARK VINA RESULT: -5.1 0 0''
      else if ligand_file = ''d.pdbqt'' then Completed 0 ''no result here''
      else Raised)"

section \<open>Python floats\<close>

text \<open>
  A Python \<open>float\<close> is an IEEE 754 binary64 value: a finite number, an infinity or NaN.
  There are two zeros: \<open>Fin 0\<close> is \<open>0.0\<close> and \<open>NegZero\<close> is \<open>-0.0\<close>; every other finite
  number \<open>x\<close> is \<open>Fin x\<close>. The zeros are equal under \<open>==\<close> and neither is below the other, but
  they are two values: \<open>str\<close> prints them differently. The result of an arithmetic operation
  on finite values is the exact result rounded to the nearest binary64 number, ties to
  even, an infinity when the rounded value is out of range, and a zero with the sign that
  IEEE 754 gives it.
\<close>

datatype pyfloat = Fin real | NegZero | PInf | NInf | NaN

fun float_value :: "pyfloat \<Rightarrow> real" where
  \<comment> \<open>the number that a finite value stands for\<close>
  "float_value (Fin x) = x"
| "float_value a = 0"

fun float_lt :: "pyfloat \<Rightarrow> pyfloat \<Rightarrow> bool" where
  \<comment> \<open>\<open>a < b\<close>; false as soon as one side is NaN\<close>
  "float_lt NaN b = False"
| "float_lt a NaN = False"
| "float_lt PInf b = False"
| "float_lt a NInf = False"
| "float_lt NInf b = True"
| "float_lt a PInf = True"
| "float_lt a b = (float_value a < float_value b)"

definition float_gt :: "pyfloat \<Rightarrow> pyfloat \<Rightarrow> bool" where
  \<comment> \<open>\<open>a > b\<close>\<close>
  "float_gt a b = float_lt b a"

fun float_eq :: "pyfloat \<Rightarrow> pyfloat \<Rightarrow> bool" where
  \<comment> \<open>\<open>a == b\<close>; NaN is not equal to itself, and the two zeros are equal\<close>
  "float_eq NaN b = False"
| "float_eq a NaN = False"
| "float_eq PInf b = (b = PInf)"
| "float_eq a PInf = False"
| "float_eq NInf b = (b = NInf)"
| "float_eq a NInf = False"
| "float_eq a b = (float_value a = float_value b)"


definition round_half_even :: "real \<Rightarrow> int" where
  "round_half_even x =
     (let f = \<lfloor>x\<rfloor>; d = x - of_int f
      in if d < 1 / 2 then f else if 1 / 2 < d then f + 1 else if even f then f else f + 1)"

definition float_exponent :: "real \<Rightarrow> int" where
  \<comment> \<open>the binary exponent of a number other than 0, not below that of the subnormal numbers\<close>
  "float_exponent x = max \<lfloor>log 2 \<bar>x\<bar>\<rfloor> (- 1022)"

definition nearest :: "real \<Rightarrow> real" where
  \<comment> \<open>the nearest multiple of the unit in the last place, for 53 bits of precision\<close>
  "nearest x =
     (let ulp = 2 powr (of_int (float_exponent x - 52))
      in of_int (round_half_even (x / ulp)) * ulp)"

definition round64 :: "real \<Rightarrow> pyfloat" where
  \<comment> \<open>a number other than 0 that rounds to zero keeps its sign\<close>
  "round64 x =
     (if x = 0 then Fin 0
      else if 2 ^ 1024 \<le> nearest x then PInf
      else if nearest x \<le> - (2 ^ 1024) then NInf
      else if nearest x = 0 then (if x < 0 then NegZero else Fin 0)
      else Fin (nearest x))"

fun float_add :: "pyfloat \<Rightarrow> pyfloat \<Rightarrow> pyfloat" where
  \<comment> \<open>\<open>a + b\<close>; an exact sum 0 is \<open>0.0\<close>, unless both terms are \<open>-0.0\<close>\<close>
  "float_add NaN b = NaN"
| "float_add a NaN = NaN"
| "float_add PInf NInf = NaN"
| "float_add NInf PInf = NaN"
| "float_add PInf b = PInf"
| "float_add a PInf = PInf"
| "float_add NInf b = NInf"
| "float_add a NInf = NInf"
| "float_add NegZero NegZero = NegZero"
| "float_add a b = round64 (float_value a + float_value b)"

fun float_neg :: "pyfloat \<Rightarrow> pyfloat" where
  "float_neg (Fin a) = (if a = 0 then NegZero else Fin (- a))"
| "float_neg NegZero = Fin 0"
| "float_neg PInf = NInf"
| "float_neg NInf = PInf"
| "float_neg NaN = NaN"

definition float_sub :: "pyfloat \<Rightarrow> pyfloat \<Rightarrow> pyfloat" where
  \<comment> \<open>\<open>a - b\<close>\<close>
  "float_sub a b = float_add a (float_neg b)"

fun float_div_two :: "pyfloat \<Rightarrow> pyfloat" where
  \<comment> \<open>\<open>a / 2.0\<close>\<close>
  "float_div_two (Fin a) = round64 (a / 2)"
| "float_div_two a = a"


subsection \<open>\<open>float(s)\<close> on a string without whitespace\<close>

definition is_digit :: "char \<Rightarrow> bool" where
  "is_digit c = (c \<in> set ''0123456789'')"

definition digit_value :: "char \<Rightarrow> nat" where
  "digit_value c = of_char c - 48"

definition digits_value :: "string \<Rightarrow> nat" where
  "digits_value ds = foldl (\<lambda>n c. 10 * n + digit_value c) 0 ds"

fun underscores_ok :: "char \<Rightarrow> string \<Rightarrow> bool" where
  \<comment> \<open>an underscore is allowed only between two digits; the first argument is the
      character before\<close>
  "underscores_ok prev [] = (prev \<noteq> CHR ''_'')"
| "underscores_ok prev (c # cs) =
     ((if c = CHR ''_'' then is_digit prev else if prev = CHR ''_'' then is_digit c else True)
      \<and> underscores_ok c cs)"

definition scale10 :: "nat \<Rightarrow> int \<Rightarrow> real" where
  "scale10 m k = (if 0 \<le> k then of_nat m * 10 ^ nat k else of_nat m / 10 ^ nat (- k))"

definition split_sign :: "string \<Rightarrow> bool \<times> string" where
  \<comment> \<open>an optional sign: whether it is a minus, and the rest\<close>
  "split_sign s =
     (case s of
        [] \<Rightarrow> (False, [])
      | c # r \<Rightarrow> if c = CHR ''-'' then (True, r) else if c = CHR ''+'' then (False, r) else (False, s))"

definition parse_exponent :: "string \<Rightarrow> int option" where
  \<comment> \<open>what may follow the mantissa: nothing, or e or E, an optional sign and digits\<close>
  "parse_exponent s =
     (case s of
        [] \<Rightarrow> Some 0
      | c # r \<Rightarrow>
          if c = CHR ''e'' \<or> c = CHR ''E'' then
            (let (minus, ds) = split_sign r
             in if ds \<noteq> [] \<and> list_all is_digit ds
                then Some (if minus then - int (digits_value ds) else int (digits_value ds))
                else None)
          else None)"

definition parse_decimal :: "string \<Rightarrow> real option" where
  \<comment> \<open>digits, an optional point and digits, with a digit on at least one side of the point,
      and an optional exponent: the exact value of the decimal numeral\<close>
  "parse_decimal s =
     (let int_part = takeWhile is_digit s;
          r1 = dropWhile is_digit s;
          (frac_part, r2) =
            (case r1 of
               [] \<Rightarrow> ([], [])
             | c # r \<Rightarrow> if c = CHR ''.'' then (takeWhile is_digit r, dropWhile is_digit r)
                        else ([], r1))
      in if int_part = [] \<and> frac_part = [] then None
         else (case parse_exponent r2 of
                 None \<Rightarrow> None
               | Some e \<Rightarrow>
                   Some (scale10 (digits_value (int_part @ frac_part)) (e - int (length frac_part)))))"

definition py_float :: "string \<Rightarrow> pyfloat option" where
  \<comment> \<open>\<open>float(s)\<close>; \<open>None\<close> stands for \<open>ValueError\<close>\<close>
  "py_float s =
     (if underscores_ok (CHR 0x00) s then
        (let (minus, u) = split_sign (filter (\<lambda>c. c \<noteq> CHR ''_'') s)
         in if py_lower u = ''inf'' \<or> py_lower u = ''infinity''
              then Some (if minus then NInf else PInf)
            else if py_lower u = ''nan'' then Some NaN
            else (case parse_decimal u of
                    None \<Rightarrow> None
                  | Some v \<Rightarrow>
                      Some (if minus then (if v = 0 then NegZero else round64 (- v))
                            else round64 v)))
      else None)"

section \<open>The docking box: \<open>calculate_docking_box\<close> (dock_box.py)\<close>

text \<open>
  The structure file is given by its lines, as the loop \<open>for line in f\<close> reads them.
\<close>

datatype error = ValueError | CalledProcessError

record bounds =
  min_x :: pyfloat
  min_y :: pyfloat
  min_z :: pyfloat
  max_x :: pyfloat
  max_y :: pyfloat
  max_z :: pyfloat

record docking_box =
  center_x :: pyfloat
  center_y :: pyfloat
  center_z :: pyfloat
  size_x :: pyfloat
  size_y :: pyfloat
  size_z :: pyfloat

definition is_atom_line :: "string \<Rightarrow> bool" where
  "is_atom_line line = (startswith ''ATOM'' line \<or> startswith ''HETATM'' line)"

definition read_coordinates :: "string list \<Rightarrow> (pyfloat \<times> pyfloat \<times> pyfloat) option" where
  \<comment> \<open>the \<open>try\<close> block on the list \<open>fields\<close>: \<open>fields[i]\<close> raises IndexError beyond the last
      field and \<open>float\<close> raises ValueError; both are caught, and nothing has been assigned
      to the bounds by then\<close>
  "read_coordinates fs =
     (if length fs \<le> 6 then None
      else (case py_float (fs ! 6) of
        None \<Rightarrow> None
      | Some x \<Rightarrow>
          if length fs \<le> 7 then None
          else (case py_float (fs ! 7) of
            None \<Rightarrow> None
          | Some y \<Rightarrow>
              if length fs \<le> 8 then None
              else (case py_float (fs ! 8) of
                None \<Rightarrow> None
              | Some z \<Rightarrow> Some (x, y, z)))))"

definition update_bounds :: "bounds \<Rightarrow> pyfloat \<times> pyfloat \<times> pyfloat \<Rightarrow> bounds" where
  \<comment> \<open>the six \<open>if\<close> statements, in the order of the source\<close>
  "update_bounds b c =
     (case c of (x, y, z) \<Rightarrow>
        let b1 = (if float_lt x (min_x b) then b\<lparr>min_x := x\<rparr> else b);
            b2 = (if float_gt x (max_x b1) then b1\<lparr>max_x := x\<rparr> else b1);
            b3 = (if float_lt y (min_y b2) then b2\<lparr>min_y := y\<rparr> else b2);
            b4 = (if float_gt y (max_y b3) then b3\<lparr>max_y := y\<rparr> else b3);
            b5 = (if float_lt z (min_z b4) then b4\<lparr>min_z := z\<rparr> else b4)
        in (if float_gt z (max_z b5) then b5\<lparr>max_z := z\<rparr> else b5))"

definition scan_line :: "bounds \<Rightarrow> string \<Rightarrow> bounds" where
  \<comment> \<open>the body of the loop over the lines\<close>
  "scan_line b line =
     (if is_atom_line line then
        (case read_coordinates (py_split line) of
           None \<Rightarrow> b
         | Some c \<Rightarrow> update_bounds b c)
      else b)"

definition initial_bounds :: bounds where
  "initial_bounds =
     \<lparr>min_x = PInf, min_y = PInf, min_z = PInf, max_x = NInf, max_y = NInf, max_z = NInf\<rparr>"

definition scan_lines :: "string list \<Rightarrow> bounds" where
  "scan_lines lines = foldl scan_line initial_bounds lines"

definition calculate_docking_box :: "string list \<Rightarrow> pyfloat \<Rightarrow> error + docking_box" where
  "calculate_docking_box lines padding =
     (let b = scan_lines lines
      in if float_eq (min_x b) PInf then Inl ValueError
         else Inr \<lparr>center_x = float_div_two (float_add (min_x b) (max_x b)),
                   center_y = float_div_two (float_add (min_y b) (max_y b)),
                   center_z = float_div_two (float_add (min_z b) (max_z b)),
                   size_x = float_add (float_sub (max_x b) (min_x b)) padding,
                   size_y = float_add (float_sub (max_y b) (min_y b)) padding,
                   size_z = float_add (float_sub (max_z b) (min_z b)) padding\<rparr>)"

text \<open>
  The coordinate triples that the scan reads, in the order of the file: one for each atom
  line whose seventh, eighth and ninth fields are all accepted by \<open>float\<close>.
\<close>

definition coordinates :: "string list \<Rightarrow> (pyfloat \<times> pyfloat \<times> pyfloat) list" where
  "coordinates lines =
     List.map_filter (\<lambda>line. read_coordinates (py_split line)) (filter is_atom_line lines)"

text \<open>
  One step of a running minimum and of a running maximum, as the \<open>if\<close> statements of the
  loop compute them.
\<close>

definition lower :: "pyfloat \<Rightarrow> pyfloat \<Rightarrow> pyfloat" where
  "lower m x = (if float_lt x m then x else m)"

definition upper :: "pyfloat \<Rightarrow> pyfloat \<Rightarrow> pyfloat" where
  "upper m x = (if float_gt x m then x else m)"



definition xs_of :: "string list \<Rightarrow> pyfloat list" where
  "xs_of lines = map (\<lambda>(x, y, z). x) (coordinates lines)"

definition ys_of :: "string list \<Rightarrow> pyfloat list" where
  "ys_of lines = map (\<lambda>(x, y, z). y) (coordinates lines)"

definition zs_of :: "string list \<Rightarrow> pyfloat list" where
  "zs_of lines = map (\<lambda>(x, y, z). z) (coordinates lines)"

text \<open>
  Equality up to the sign of a zero: \<open>forget_sign\<close> maps \<open>-0.0\<close> to \<open>0.0\<close> and leaves every
  other value as it is, so two floats have the same image if and only if they are both NaN
  or equal under \<open>==\<close>.
\<close>

fun forget_sign :: "pyfloat \<Rightarrow> pyfloat" where
  "forget_sign NegZero = Fin 0"
| "forget_sign a = a"

definition forget_sign_bounds :: "bounds \<Rightarrow> bounds" where
  "forget_sign_bounds b =
     \<lparr>min_x = forget_sign (min_x b), min_y = forget_sign (min_y b), min_z = forget_sign (min_z b),
      max_x = forget_sign (max_x b), max_y = forget_sign (max_y b), max_z = forget_sign (max_z b)\<rparr>"

definition forget_sign_box :: "docking_box \<Rightarrow> docking_box" where
  "forget_sign_box b =
     \<lparr>center_x = forget_sign (center_x b), center_y = forget_sign (center_y b),
      center_z = forget_sign (center_z b), size_x = forget_sign (size_x b),
      size_y = forget_sign (size_y b), size_z = forget_sign (size_z b)\<rparr>"

text \<open>Structure files for the examples.\<close>

definition demo_atom_1 :: string where
  "demo_atom_1 = ''ATOM      1  C   LIG A   1       0.000   0.000   0.000  0.00  0.00    +0.000 C''"

definition demo_atom_2 :: string where
  "demo_atom_2 = ''HETATM    2  O   LIG A   1      10.000   6.000   4.000  0.00  0.00    +0.000 OA''"

definition demo_receptor :: "string list" where
  \<comment> \<open>a receptor with two atoms, at (0, 0, 0) and at (10, 6, 4)\<close>
  "demo_receptor = [''REMARK  two atoms'', demo_atom_1, demo_atom_2]"

definition demo_remark :: string where
  "demo_remark = ''REMARK    3  N   LIG A   1      99.000  99.000  99.000  0.00  0.00    +0.000 N''"

definition demo_malformed :: string where
  \<comment> \<open>an atom line whose first two coordinate fields are numbers and whose third is not\<close>
  "demo_malformed = ''ATOM      3  N   LIG A   1      50.000  60.000  7o.000  0.00  0.00    +0.000 N''"

definition demo_short :: string where
  \<comment> \<open>an atom line with eight fields\<close>
  "demo_short = ''ATOM      3  N   LIG A   1      50.000  60.000''"

definition demo_overflow_x :: string where
  "demo_overflow_x = ''ATOM      1  C   LIG A   1       1e400   0.000   0.000''"

definition demo_overflow_y :: string where
  "demo_overflow_y = ''ATOM      1  C   LIG A   1       0.000   1e400   0.000''"

definition demo_neg_zero :: string where
  \<comment> \<open>an atom at the origin whose \<open>x\<close> field is written \<open>-0.000\<close>\<close>
  "demo_neg_zero = ''ATOM      2  O   LIG A   1      -0.000   0.000   0.000  0.00  0.00    +0.000 OA''"

section \<open>Preparing the ligands (pipeline.py, smiles_to_mol2.py)\<close>

text \<open>
  Open Babel is the environment of the conversion: for a cleaned SMILES string and an output
  file name, the process either exits with status 0 or it does not, and then
  \<open>subprocess.run(..., check=True)\<close> raises \<open>CalledProcessError\<close>. Files are named within the
  output directory.
\<close>

definition clean_smiles :: "string \<Rightarrow> string" where
  \<comment> \<open>\<open>re.sub(r'\..*$', '', smiles)\<close>: the dot of the pattern matches no line break and \<open>$\<close>
      matches at the end and before a final line break, so the match starts at the first dot
      after the last line break that is not final, and a final line break is kept\<close>
  "clean_smiles smiles =
     (let final = (if smiles \<noteq> [] \<and> last smiles = CHR 0x0A then [CHR 0x0A] else []);
          body = take (length smiles - length final) smiles;
          last_line = rev (takeWhile (\<lambda>c. c \<noteq> CHR 0x0A) (rev body));
          before = take (length body - length last_line) body
      in if CHR ''.'' \<in> set last_line
         then before @ takeWhile (\<lambda>c. c \<noteq> CHR ''.'') last_line @ final
         else smiles)"

definition py_strip :: "string \<Rightarrow> string" where
  \<comment> \<open>\<open>s.strip()\<close>\<close>
  "py_strip s = rev (dropWhile is_space (rev (dropWhile is_space s)))"

definition sanitize_name :: "string \<Rightarrow> string" where
  \<comment> \<open>\<open>str(name).strip().replace('/', '_').replace('\\', '_').replace(':', '_')\<close>\<close>
  "sanitize_name name =
     map (\<lambda>c. if c = CHR ''/'' \<or> c = CHR 0x5C \<or> c = CHR '':'' then CHR ''_'' else c) (py_strip name)"

definition convert_smiles_to_mol2 ::
  "(string \<Rightarrow> string \<Rightarrow> bool) \<Rightarrow> string \<Rightarrow> string \<Rightarrow> error + string" where
  \<comment> \<open>the error is logged and raised again\<close>
  "convert_smiles_to_mol2 obabel smiles name =
     (let cleaned_smiles = clean_smiles smiles;
          output_filename = sanitize_name name @ ''.mol2''
      in if obabel cleaned_smiles output_filename then Inr output_filename
         else Inl CalledProcessError)"

text \<open>
  The loop of \<open>run_pipeline\<close> over the rows (name, SMILES) of the molecule table. It calls
  \<open>convert_smiles_to_mol2\<close> outside of any \<open>try\<close>, so an error of the conversion leaves the loop
  and \<open>run_pipeline\<close>. The result is the list of the files written so far and the error, if
  there is one.
\<close>

fun prepare_ligands ::
  "(string \<Rightarrow> string \<Rightarrow> bool) \<Rightarrow> (string \<times> string) list \<Rightarrow> string list \<times> error option" where
  "prepare_ligands obabel [] = ([], None)"
| "prepare_ligands obabel ((name, smile) # rows) =
     (case convert_smiles_to_mol2 obabel (clean_smiles smile) name of
        Inl e \<Rightarrow> ([], Some e)
      | Inr mol2file \<Rightarrow>
          (case prepare_ligands obabel rows of (files, outcome) \<Rightarrow> (mol2file # files, outcome)))"

text \<open>
  \<open>run_pipeline\<close> up to the end of that loop. The steps that follow it (the conversion to
  PDBQT, the receptor, the box and the docking) are a parameter: they run only if the loop
  has ended without an error.
\<close>

definition run_pipeline ::
  "(string \<Rightarrow> string \<Rightarrow> bool) \<Rightarrow> (string \<times> string) list \<Rightarrow> (string list \<Rightarrow> error + 'a)
     \<Rightarrow> error + 'a" where
  "run_pipeline obabel smiles_data later_steps =
     (case prepare_ligands obabel smiles_data of
        (mol2_files, Some e) \<Rightarrow> Inl e
      | (mol2_files, None) \<Rightarrow> later_steps mol2_files)"

text \<open>
  The loop of \<open>convert_from_excel\<close> over the same rows: it skips a row without a name or
  without a SMILES string, and it catches the error of a conversion and goes on.
\<close>

fun convert_from_excel :: "(string \<Rightarrow> string \<Rightarrow> bool) \<Rightarrow> (string \<times> string) list \<Rightarrow> string list" where
  "convert_from_excel obabel [] = []"
| "convert_from_excel obabel ((name, smiles_cell) # rows) =
     (let smiles = py_strip smiles_cell
      in if smiles = [] \<or> name = [] then convert_from_excel obabel rows
         else (case convert_smiles_to_mol2 obabel smiles name of
                 Inl e \<Rightarrow> convert_from_excel obabel rows
               | Inr output_file \<Rightarrow> output_file # convert_from_excel obabel rows))"

definition demo_obabel :: "string \<Rightarrow> string \<Rightarrow> bool" where
  \<comment> \<open>an Open Babel that fails on one SMILES string, an unclosed ring\<close>
  "demo_obabel cleaned_smiles output_filename = (cleaned_smiles \<noteq> ''C1CC'')"

definition demo_molecules :: "(string \<times> string) list" where
  "demo_molecules = [(''mol_a'', ''CCO''), (''mol_b'', ''C1CC''), (''mol_c'', ''CCN.Cl'')]"

section \<open>Rounding to binary64\<close>

lemma round_half_even_of_int: "round_half_even (of_int n) = n"
  by (simp add: round_half_even_def)

lemma round_half_even_bounds: "\<lfloor>x\<rfloor> \<le> round_half_even x \<and> round_half_even x \<le> \<lfloor>x\<rfloor> + 1"
  by (simp add: round_half_even_def Let_def)

lemma round_half_even_mono:
  assumes "x \<le> y"
  shows "round_half_even x \<le> round_half_even y"
proof (cases "\<lfloor>x\<rfloor> = \<lfloor>y\<rfloor>")
  case True
  have "x - of_int \<lfloor>x\<rfloor> \<le> y - of_int \<lfloor>y\<rfloor>"
    using assms True by simp
  then show ?thesis
    using True by (auto simp: round_half_even_def Let_def)
next
  case False
  with assms have "\<lfloor>x\<rfloor> < \<lfloor>y\<rfloor>"
    using floor_mono [of x y] by linarith
  then show ?thesis
    using round_half_even_bounds [of x] round_half_even_bounds [of y] by linarith
qed



lemma powr_floor_log_le:
  assumes "0 < x"
  shows "2 powr (of_int \<lfloor>log 2 x\<rfloor>) \<le> x" and "x < 2 powr (of_int (\<lfloor>log 2 x\<rfloor> + 1))"
proof -
  have "2 powr (of_int \<lfloor>log 2 x\<rfloor>) \<le> 2 powr (log 2 x)"
    by (intro powr_mono) simp_all
  then show "2 powr (of_int \<lfloor>log 2 x\<rfloor>) \<le> x"
    using assms by simp
  have "log 2 x < of_int (\<lfloor>log 2 x\<rfloor> + 1)"
    by linarith
  then have "2 powr (log 2 x) < 2 powr (of_int (\<lfloor>log 2 x\<rfloor> + 1))"
    by (intro powr_less_mono) simp_all
  then show "x < 2 powr (of_int (\<lfloor>log 2 x\<rfloor> + 1))"
    using assms by simp
qed




lemma nearest_ge_binade:
  assumes "0 < x" and "- 1022 \<le> \<lfloor>log 2 x\<rfloor>"
  shows "2 powr (of_int (float_exponent x)) \<le> nearest x"
proof -
  define e where "e = float_exponent x"
  define ulp :: real where "ulp = 2 powr (of_int (e - 52))"
  have ulp: "0 < ulp" by (simp add: ulp_def)
  have e: "e = \<lfloor>log 2 x\<rfloor>"
    using assms by (simp add: e_def float_exponent_def)
  have "2 ^ 52 * ulp = 2 powr (of_int e)"
    by (simp add: ulp_def powr_diff)
  also have "\<dots> \<le> x"
    unfolding e using assms(1) by (rule powr_floor_log_le)
  finally have "of_int (2 ^ 52) \<le> x / ulp"
    using ulp by (simp add: pos_le_divide_eq)
  then have "2 ^ 52 \<le> round_half_even (x / ulp)"
    using round_half_even_mono [of "of_int (2 ^ 52)" "x / ulp"]
    by (simp only: round_half_even_of_int)
  then have "2 ^ 52 * ulp \<le> of_int (round_half_even (x / ulp)) * ulp"
    using ulp by (simp add: mult_right_mono numeral_power_le_of_int_cancel_iff)
  then show ?thesis
    unfolding nearest_def Let_def e_def [symmetric] ulp_def [symmetric]
    by (simp add: ulp_def powr_diff)
qed



lemma nearest_of_int:
  assumes "k \<noteq> 0" and "\<bar>k\<bar> < 2 ^ 53"
  shows "nearest (of_int k) = of_int k"
proof -
  define e where "e = float_exponent (of_int k)"
  define ulp :: real where "ulp = 2 powr (of_int (e - 52))"
  have pos: "0 < \<bar>real_of_int k\<bar>" using assms(1) by simp
  have "\<bar>real_of_int k\<bar> < 2 ^ 53"
    using assms(2) by (metis of_int_abs of_int_less_numeral_power_cancel_iff)
  then have "log 2 \<bar>real_of_int k\<bar> < log 2 (2 ^ 53)"
    using pos by (subst log_less_cancel_iff) simp_all
  moreover have "log 2 ((2::real) ^ 53) = 53"
    by (subst log_pow_cancel) simp_all
  ultimately have "log 2 \<bar>real_of_int k\<bar> < 53"
    by (simp only:)
  then have "\<lfloor>log 2 \<bar>real_of_int k\<bar>\<rfloor> < 53"
    by (simp add: floor_less_iff)
  then have e: "e \<le> 52"
    by (simp add: e_def float_exponent_def)
  have "1 / ulp = 2 powr (of_int (52 - e))"
    by (simp add: ulp_def powr_diff)
  also have "\<dots> = 2 ^ nat (52 - e)"
    using e by (simp add: powr_realpow [symmetric])
  finally have inv: "1 / ulp = of_int (2 ^ nat (52 - e))"
    by simp
  have "of_int k / ulp = of_int k * (1 / ulp)"
    by simp
  also have "\<dots> = of_int (k * 2 ^ nat (52 - e))"
    unfolding inv by simp
  finally have "round_half_even (of_int k / ulp) = k * 2 ^ nat (52 - e)"
    by (simp only: round_half_even_of_int)
  then have "nearest (of_int k) = of_int (k * 2 ^ nat (52 - e)) * ulp"
    unfolding nearest_def Let_def e_def [symmetric] ulp_def [symmetric] by (simp only:)
  also have "\<dots> = of_int k * ((1 / ulp) * ulp)"
    unfolding inv by simp
  also have "\<dots> = of_int k"
    by (simp add: ulp_def)
  finally show ?thesis .
qed

lemma round64_of_int:
  assumes "\<bar>k\<bar> < 2 ^ 53"
  shows "round64 (of_int k) = Fin (of_int k)"
proof (cases "k = 0")
  case True
  then show ?thesis by (simp add: round64_def)
next
  case False
  have n: "nearest (of_int k) = of_int k"
    using False assms by (rule nearest_of_int)
  have "\<bar>real_of_int k\<bar> < 2 ^ 53"
    using assms by (metis of_int_abs of_int_less_numeral_power_cancel_iff)
  moreover have "(2::real) ^ 53 < 2 ^ 1024"
    by (intro power_strict_increasing) simp_all
  ultimately have "\<bar>real_of_int k\<bar> < 2 ^ 1024"
    by linarith
  then show ?thesis
    using False by (auto simp: round64_def n)
qed

lemma round64_numeral:
  "(numeral n :: int) < 2 ^ 53 \<Longrightarrow> round64 (numeral n) = Fin (numeral n)"
  "(numeral n :: int) < 2 ^ 53 \<Longrightarrow> round64 (- numeral n) = Fin (- numeral n)"
  "round64 0 = Fin 0"
  "round64 1 = Fin 1"
  using round64_of_int [of "numeral n"] round64_of_int [of "- numeral n"] round64_of_int [of 1]
  by (simp_all add: round64_def)

lemma round64_overflow:
  assumes "2 ^ 1024 \<le> x"
  shows "round64 x = PInf"
proof -
  have x: "0 < x"
    using assms by (meson less_le_trans zero_less_numeral zero_less_power)
  have "log 2 (2 ^ 1024) \<le> log 2 x"
    using assms x by (subst log_le_cancel_iff) simp_all
  moreover have "log 2 ((2::real) ^ 1024) = 1024"
    by (subst log_pow_cancel) simp_all
  ultimately have "1024 \<le> log 2 x"
    by (simp only:)
  then have fl: "1024 \<le> \<lfloor>log 2 x\<rfloor>"
    by (simp add: le_floor_iff)
  then have e: "1024 \<le> float_exponent x"
    using x by (simp add: float_exponent_def)
  have "(2::real) ^ 1024 = 2 powr (of_int 1024)"
    by (simp add: powr_realpow [symmetric])
  also have "\<dots> \<le> 2 powr (of_int (float_exponent x))"
    using e by (intro powr_mono) simp_all
  also have "\<dots> \<le> nearest x"
    using x fl by (intro nearest_ge_binade) simp_all
  finally show ?thesis
    using x by (simp add: round64_def)
qed


section \<open>Evaluation of the examples\<close>

lemmas parse_defs = py_float_def split_sign_def py_lower_def py_lower_char_def upper_chars_def
  lower_chars_def is_digit_def parse_decimal_def digits_value_def digit_value_def
  parse_exponent_def scale10_def

lemma demo_tokens:
  "py_float ''0.000'' = Some (Fin 0)"
  "py_float ''10.000'' = Some (Fin 10)"
  "py_float ''6.000'' = Some (Fin 6)"
  "py_float ''4.000'' = Some (Fin 4)"
  "py_float ''50.000'' = Some (Fin 50)"
  "py_float ''60.000'' = Some (Fin 60)"
  "py_float ''7o.000'' = None"
  "py_float ''-0.000'' = Some NegZero"
  by (simp_all add: parse_defs round64_numeral)

lemma pow10_overflow: "(2::real) ^ 1024 \<le> 10 ^ 400"
proof -
  have "(2::real) ^ 1024 \<le> 2 ^ 1200" by (intro power_increasing) simp_all
  also have "\<dots> = (2 ^ 3) ^ 400" by (simp only: power_mult [symmetric]) simp
  also have "\<dots> \<le> (10::real) ^ 400" by (intro power_mono) simp_all
  finally show ?thesis .
qed

lemma overflow_token: "py_float ''1e400'' = Some PInf"
proof -
  have "parse_decimal ''1e400'' = Some (10 ^ 400)"
    by (simp add: parse_decimal_def is_digit_def digits_value_def digit_value_def
        parse_exponent_def scale10_def split_sign_def del: power_numeral)
  then show ?thesis
    using round64_overflow [OF pow10_overflow]
    by (simp add: py_float_def split_sign_def py_lower_def py_lower_char_def upper_chars_def
        lower_chars_def is_digit_def del: power_numeral)
qed

lemma demo_fields:
  "py_split demo_atom_1 =
     [''ATOM'', ''1'', ''C'', ''LIG'', ''A'', ''1'', ''0.000'', ''0.000'', ''0.000'', ''0.00'', ''0.00'', ''+0.000'', ''C'']"
  "py_split demo_atom_2 =
     [''HETATM'', ''2'', ''O'', ''LIG'', ''A'', ''1'', ''10.000'', ''6.000'', ''4.000'', ''0.00'', ''0.00'', ''+0.000'', ''OA'']"
  "py_split demo_malformed =
     [''ATOM'', ''3'', ''N'', ''LIG'', ''A'', ''1'', ''50.000'', ''60.000'', ''7o.000'', ''0.00'', ''0.00'', ''+0.000'', ''N'']"
  "py_split demo_short = [''ATOM'', ''3'', ''N'', ''LIG'', ''A'', ''1'', ''50.000'', ''60.000'']"
  "py_split demo_overflow_x = [''ATOM'', ''1'', ''C'', ''LIG'', ''A'', ''1'', ''1e400'', ''0.000'', ''0.000'']"
  "py_split demo_overflow_y = [''ATOM'', ''1'', ''C'', ''LIG'', ''A'', ''1'', ''0.000'', ''1e400'', ''0.000'']"
  "py_split demo_neg_zero =
     [''ATOM'', ''2'', ''O'', ''LIG'', ''A'', ''1'', ''-0.000'', ''0.000'', ''0.000'', ''0.00'', ''0.00'', ''+0.000'', ''OA'']"
  by (simp_all add: demo_atom_1_def demo_atom_2_def demo_malformed_def demo_short_def demo_overflow_x_def
      demo_overflow_y_def demo_neg_zero_def py_split_def is_space_def)

lemma demo_atom_lines:
  "\<not> is_atom_line ''REMARK  two atoms''" "is_atom_line demo_atom_1"
  "is_atom_line demo_atom_2" "\<not> is_atom_line demo_remark" "is_atom_line demo_malformed"
  "is_atom_line demo_short" "is_atom_line demo_overflow_x" "is_atom_line demo_overflow_y"
  "is_atom_line demo_neg_zero"
  by (simp_all add: demo_atom_1_def demo_atom_2_def demo_remark_def demo_malformed_def demo_short_def
      demo_overflow_x_def demo_overflow_y_def demo_neg_zero_def is_atom_line_def startswith_def)

lemma demo_coordinates:
  "read_coordinates (py_split demo_atom_1) = Some (Fin 0, Fin 0, Fin 0)"
  "read_coordinates (py_split demo_atom_2) = Some (Fin 10, Fin 6, Fin 4)"
  "read_coordinates (py_split demo_malformed) = None"
  "read_coordinates (py_split demo_short) = None"
  "read_coordinates (py_split demo_overflow_x) = Some (PInf, Fin 0, Fin 0)"
  "read_coordinates (py_split demo_overflow_y) = Some (Fin 0, PInf, Fin 0)"
  "read_coordinates (py_split demo_neg_zero) = Some (NegZero, Fin 0, Fin 0)"
  by (simp_all add: demo_fields read_coordinates_def demo_tokens overflow_token)

section \<open>Properties of the job supervisor\<close>

subsection \<open>One job\<close>

lemma dock_ligand_results:
  "docking_results (dock_ligand engine st l) = docking_results st @ job_records engine l"
  by (simp add: dock_ligand_def job_records_def job_energy_def read_binding_energy_def Let_def
      split: engine_result.split option.split)

lemma dock_ligand_summary:
  "summary_log (dock_ligand engine st l) = summary_log st @ summary_rows (job_records engine l)"
  by (simp add: dock_ligand_def job_records_def job_energy_def read_binding_energy_def Let_def
      summary_rows_def split: engine_result.split option.split)

lemma dock_ligand_invocations:
  "map fst (invocations (dock_ligand engine st l)) =
     map fst (invocations st) @ (if is_ligand_file l then [l] else [])"
  by (simp add: dock_ligand_def Let_def split: engine_result.split option.split)

lemma dock_ligand_other: "\<not> is_ligand_file l \<Longrightarrow> dock_ligand engine st l = st"
  by (simp add: dock_ligand_def)

lemma job_records_some:
  "is_ligand_file l \<Longrightarrow> job_energy engine l = Some e \<Longrightarrow>
     job_records engine l = [\<lparr>ligand = l, binding_energy = e\<rparr>]"
  by (simp add: job_records_def)

lemma job_records_none:
  "\<not> is_ligand_file l \<or> job_energy engine l = None \<Longrightarrow> job_records engine l = []"
  by (auto simp: job_records_def)

lemma record_in_job_records:
  "r \<in> set (job_records engine l) \<longleftrightarrow>
     ligand r = l \<and> is_ligand_file l \<and> job_energy engine l = Some (binding_energy r)"
proof (cases "is_ligand_file l \<and> job_energy engine l \<noteq> None")
  case True
  then obtain e where e: "job_energy engine l = Some e" by blast
  have "r = \<lparr>ligand = l, binding_energy = e\<rparr> \<longleftrightarrow> ligand r = l \<and> binding_energy r = e"
    by (cases r) simp
  then show ?thesis
    using True e by (auto simp: job_records_some)
next
  case False
  then have "job_records engine l = []"
    by (intro job_records_none) simp
  then show ?thesis
    using False by auto
qed

lemma failed_job_energy:
  "engine K = Completed returncode stdout \<Longrightarrow> returncode \<noteq> 0 \<Longrightarrow> job_energy engine K = None"
  by (simp add: job_energy_def)

lemma scan_log_fourth_token: "scan_log ls = fourth_token ls"
  by (induction ls) (simp_all add: fourth_token_def Let_def)

lemma job_energy_completed:
  "engine l = Completed 0 stdout \<Longrightarrow> job_energy engine l = fourth_token (py_lines stdout)"
  by (cases stdout) (simp_all add: job_energy_def scan_log_fourth_token py_lines_def fourth_token_def)

subsection \<open>The whole batch\<close>

lemma foldl_results:
  "docking_results (foldl (dock_ligand engine) st ls) =
     docking_results st @ concat (map (job_records engine) ls)"
  by (induction ls arbitrary: st) (simp_all add: dock_ligand_results)

lemma foldl_summary:
  "summary_log (foldl (dock_ligand engine) st ls) =
     summary_log st @ summary_rows (concat (map (job_records engine) ls))"
  by (induction ls arbitrary: st) (simp_all add: dock_ligand_summary summary_rows_def)

lemma foldl_invocations:
  "map fst (invocations (foldl (dock_ligand engine) st ls)) =
     map fst (invocations st) @ filter is_ligand_file ls"
  by (induction ls arbitrary: st) (simp_all add: dock_ligand_invocations)

lemma foldl_filter:
  "foldl (dock_ligand engine) st (filter is_ligand_file ls) = foldl (dock_ligand engine) st ls"
  by (induction ls arbitrary: st) (simp_all add: dock_ligand_other)

lemma results_as_filter:
  "concat (map (job_records engine) ls) =
     map (\<lambda>l. \<lparr>ligand = l, binding_energy = the (job_energy engine l)\<rparr>)
       (filter (\<lambda>l. job_energy engine l \<noteq> None) (filter is_ligand_file ls))"
  by (induction ls) (auto simp: job_records_def)

lemma record_in_results:
  "r \<in> set (concat (map (job_records engine) ls)) \<longleftrightarrow>
     ligand r \<in> set ls \<and> is_ligand_file (ligand r)
     \<and> job_energy engine (ligand r) = Some (binding_energy r)"
  by (auto simp: record_in_job_records)

lemma ligand_in_results:
  "l \<in> ligand ` set (concat (map (job_records engine) ls)) \<longleftrightarrow>
     l \<in> set ls \<and> is_ligand_file l \<and> job_energy engine l \<noteq> None"
proof
  assume "l \<in> ligand ` set (concat (map (job_records engine) ls))"
  then obtain r where "r \<in> set (concat (map (job_records engine) ls))" "ligand r = l"
    by blast
  then show "l \<in> set ls \<and> is_ligand_file l \<and> job_energy engine l \<noteq> None"
    unfolding record_in_results by auto
next
  assume a: "l \<in> set ls \<and> is_ligand_file l \<and> job_energy engine l \<noteq> None"
  then obtain e where "job_energy engine l = Some e" by blast
  with a have "\<lparr>ligand = l, binding_energy = e\<rparr> \<in> set (concat (map (job_records engine) ls))"
    unfolding record_in_results by simp
  then show "l \<in> ligand ` set (concat (map (job_records engine) ls))"
    by force
qed

lemma filter_all_but_one:
  assumes "\<forall>l \<in> set ls. l \<noteq> K \<longrightarrow> P l" "\<not> P K"
  shows "filter P ls = filter (\<lambda>l. l \<noteq> K) ls"
  using assms by (induction ls) auto

lemma length_filter_neq:
  assumes "distinct ls" "K \<in> set ls"
  shows "length (filter (\<lambda>l. l \<noteq> K) ls) = length ls - 1"
proof -
  have "filter (\<lambda>l. l \<noteq> K) ls = remove1 K ls"
    using assms(1) by (induction ls) (auto simp: filter_id_conv)
  then show ?thesis
    using assms(2) by (simp add: length_remove1)
qed

lemma demo_ligand_files:
  "is_ligand_file ''a.pdbqt''" "is_ligand_file ''b.pdbqt''" "is_ligand_file ''c.PDBQT''"
  "is_ligand_file ''d.pdbqt''" "\<not> is_ligand_file ''notes.txt''"
  by (simp_all add: is_ligand_file_def endswith_def py_lower_def py_lower_char_def
      upper_chars_def lower_chars_def)

lemma demo_energy:
  "job_energy demo_engine ''a.pdbqt'' = Some ''-7.2''"
  "job_energy demo_engine ''b.pdbqt'' = None"
  "job_energy demo_engine ''c.PDBQT'' = Some ''-5.1''"
  "job_energy demo_engine ''d.pdbqt'' = None"
  by (simp_all add: job_energy_def demo_engine_def example_result_line_def py_lines_def
      result_marker_def startswith_def py_split_def is_space_def)

lemma example_tokens:
  "py_split example_result_line = [''REMARK'', ''VINA'', ''RESULT:'', ''-7.2'', ''0'', ''0'']"
  "py_split (example_result_line @ [CHR 0x0A]) = [''REMARK'', ''VINA'', ''RESULT:'', ''-7.2'', ''0'', ''0'']"
  by (simp_all add: example_result_line_def py_split_def is_space_def)

subsection \<open>A failing job does not stop the batch\<close>

text \<open>
  Claim C1. Let \<open>K\<close> be a ligand file of the folder whose engine process ends with a non-zero
  return code. Then \<open>K\<close> has no record in the returned list, the list holds the record of
  every ligand file whose job yields a score, in the order of the directory listing, and
  the engine is still invoked for every ligand file of the listing. If the names of the
  listing are distinct and every ligand other than \<open>K\<close> yields a score, the list has one
  record less than there are ligand files: the ligand files without \<open>K\<close>, in order.
\<close>

theorem failed_job_is_skipped:
  assumes "K \<in> set listing" and "is_ligand_file K"
    and "engine K = Completed returncode stdout" and "returncode \<noteq> 0"
  shows "(let R = run_docking engine files listing; ligs = filter is_ligand_file listing in
      K \<notin> ligand ` set (docking_results R)
      \<and> docking_results R =
          map (\<lambda>l. \<lparr>ligand = l, binding_energy = the (job_energy engine l)\<rparr>)
            (filter (\<lambda>l. job_energy engine l \<noteq> None) ligs)
      \<and> map fst (invocations R) = ligs
      \<and> (distinct listing \<and> (\<forall>l \<in> set ligs. l \<noteq> K \<longrightarrow> job_energy engine l \<noteq> None) \<longrightarrow>
           length (docking_results R) = length ligs - 1
           \<and> map ligand (docking_results R) = filter (\<lambda>l. l \<noteq> K) ligs))"
proof -
  define ligs where "ligs = filter is_ligand_file listing"
  define R where "R = run_docking engine files listing"
  have none: "job_energy engine K = None"
    using assms(3,4) by (rule failed_job_energy)
  have res: "docking_results R =
      map (\<lambda>l. \<lparr>ligand = l, binding_energy = the (job_energy engine l)\<rparr>)
        (filter (\<lambda>l. job_energy engine l \<noteq> None) ligs)"
    by (simp add: R_def ligs_def run_docking_def foldl_results results_as_filter)
  have names: "map ligand (docking_results R) = filter (\<lambda>l. job_energy engine l \<noteq> None) ligs"
    by (simp add: res o_def)
  have excl: "K \<notin> ligand ` set (docking_results R)"
  proof -
    have "K \<notin> set (map ligand (docking_results R))"
      unfolding names using none by simp
    then show ?thesis by simp
  qed
  have inv: "map fst (invocations R) = ligs"
    by (simp add: R_def ligs_def run_docking_def foldl_invocations)
  have len: "length (docking_results R) = length ligs - 1
      \<and> map ligand (docking_results R) = filter (\<lambda>l. l \<noteq> K) ligs"
    if d: "distinct listing" and ok: "\<forall>l \<in> set ligs. l \<noteq> K \<longrightarrow> job_energy engine l \<noteq> None"
  proof -
    have eq: "filter (\<lambda>l. job_energy engine l \<noteq> None) ligs = filter (\<lambda>l. l \<noteq> K) ligs"
      using ok none by (intro filter_all_but_one) auto
    have "K \<in> set ligs" "distinct ligs"
      using assms(1,2) d by (simp_all add: ligs_def)
    then have "length (filter (\<lambda>l. l \<noteq> K) ligs) = length ligs - 1"
      by (intro length_filter_neq)
    moreover have "length (docking_results R) = length (map ligand (docking_results R))"
      by simp
    ultimately show ?thesis
      using names eq by metis
  qed
  show ?thesis
    unfolding Let_def R_def [symmetric] ligs_def [symmetric]
    using excl res inv len by blast
qed

theorem failed_job_is_skipped_witness:
  "''b.pdbqt'' \<in> set [''a.pdbqt'', ''b.pdbqt'', ''c.PDBQT'']
   \<and> is_ligand_file ''b.pdbqt''
   \<and> demo_engine ''b.pdbqt'' = Completed 1 ''REMARK VINA RESULT: -9.9 0 0'' \<and> (1::int) \<noteq> 0
   \<and> distinct [''a.pdbqt'', ''b.pdbqt'', ''c.PDBQT'']
   \<and> length (docking_results (run_docking demo_engine Map.empty [''a.pdbqt'', ''b.pdbqt'', ''c.PDBQT''])) = 2
   \<and> docking_results (run_docking demo_engine Map.empty [''a.pdbqt'', ''b.pdbqt'', ''c.PDBQT'']) =
       [\<lparr>ligand = ''a.pdbqt'', binding_energy = ''-7.2''\<rparr>,
        \<lparr>ligand = ''c.PDBQT'', binding_energy = ''-5.1''\<rparr>]"
proof -
  have h1: "''b.pdbqt'' \<in> set [''a.pdbqt'', ''b.pdbqt'', ''c.PDBQT'']" by simp
  have h3: "demo_engine ''b.pdbqt'' = Completed 1 ''REMARK VINA RESULT: -9.9 0 0''"
    by (simp add: demo_engine_def)
  have h4: "(1::int) \<noteq> 0" by simp
  show ?thesis
    using failed_job_is_skipped [of "''b.pdbqt''" "[''a.pdbqt'', ''b.pdbqt'', ''c.PDBQT'']"
        demo_engine 1 "''REMARK VINA RESULT: -9.9 0 0''" Map.empty] h1 h3 h4
    by (simp add: Let_def demo_energy demo_ligand_files)
qed

subsection \<open>The score of a ligand\<close>

text \<open>
  Claim C3. The scan of the captured output returns the fourth whitespace-separated token of
  the first line that begins with \<open>REMARK VINA RESULT:\<close>. For a ligand file whose engine
  process ends with return code 0: if no line of the output begins with the marker, the
  ligand has no record at all in the returned list; if the first such line has a fourth
  token, the ligand is recorded with that token and with no other score; and if the first
  such line is \<open>REMARK VINA RESULT: -7.2 0 0\<close> the recorded score is \<open>-7.2\<close>.
\<close>

theorem score_is_fourth_token_of_first_result_line:
  assumes "l \<in> set listing" and "is_ligand_file l" and "engine l = Completed 0 stdout"
  shows "(let R = run_docking engine files listing;
              first = find (startswith result_marker) (py_lines stdout) in
      scan_log (py_lines stdout) = fourth_token (py_lines stdout)
      \<and> (first = None \<longrightarrow> l \<notin> ligand ` set (docking_results R))
      \<and> (\<forall>line. first = Some line \<and> length (py_split line) \<ge> 4 \<longrightarrow>
            \<lparr>ligand = l, binding_energy = py_split line ! 3\<rparr> \<in> set (docking_results R)
            \<and> (\<forall>r \<in> set (docking_results R). ligand r = l \<longrightarrow> binding_energy r = py_split line ! 3))
      \<and> (first = Some example_result_line \<or> first = Some (example_result_line @ [CHR 0x0A]) \<longrightarrow>
            \<lparr>ligand = l, binding_energy = ''-7.2''\<rparr> \<in> set (docking_results R)))"
proof -
  define R where "R = run_docking engine files listing"
  define first where "first = find (startswith result_marker) (py_lines stdout)"
  have res: "docking_results R = concat (map (job_records engine) listing)"
    by (simp add: R_def run_docking_def foldl_results)
  have en: "job_energy engine l = fourth_token (py_lines stdout)"
    using assms(3) by (rule job_energy_completed)
  have a: "l \<notin> ligand ` set (docking_results R)" if "first = None"
    using that unfolding res ligand_in_results en by (simp add: fourth_token_def first_def)
  have b: "\<lparr>ligand = l, binding_energy = py_split line ! 3\<rparr> \<in> set (docking_results R)
      \<and> (\<forall>r \<in> set (docking_results R). ligand r = l \<longrightarrow> binding_energy r = py_split line ! 3)"
    if "first = Some line" "length (py_split line) \<ge> 4" for line
  proof -
    have e: "job_energy engine l = Some (py_split line ! 3)"
      using that by (simp add: en fourth_token_def first_def [symmetric])
    have "\<lparr>ligand = l, binding_energy = py_split line ! 3\<rparr> \<in> set (docking_results R)"
      unfolding res record_in_results using e assms(1,2) by simp
    moreover have "binding_energy r = py_split line ! 3"
      if "r \<in> set (docking_results R)" "ligand r = l" for r
      using that e unfolding res record_in_results by simp
    ultimately show ?thesis by blast
  qed
  have c: "\<lparr>ligand = l, binding_energy = ''-7.2''\<rparr> \<in> set (docking_results R)"
    if "first = Some example_result_line \<or> first = Some (example_result_line @ [CHR 0x0A])"
  proof -
    from that obtain line where l: "first = Some line"
      "py_split line = [''REMARK'', ''VINA'', ''RESULT:'', ''-7.2'', ''0'', ''0'']"
      using example_tokens by blast
    then have "length (py_split line) \<ge> 4" "py_split line ! 3 = ''-7.2''" by simp_all
    with b [OF l(1)] show ?thesis by simp
  qed
  show ?thesis
    unfolding Let_def R_def [symmetric] first_def [symmetric]
    using a b c scan_log_fourth_token by blast
qed

theorem score_is_fourth_token_of_first_result_line_witness:
  "''a.pdbqt'' \<in> set [''a.pdbqt'', ''d.pdbqt''] \<and> is_ligand_file ''a.pdbqt''
   \<and> demo_engine ''a.pdbqt'' =
       Completed 0 (''mode 1'' @ [CHR 0x0A] @ example_result_line @ [CHR 0x0A] @
                    ''REMARK VINA RESULT: -6.9 1 2'' @ [CHR 0x0A])
   \<and> find (startswith result_marker)
        (py_lines (''mode 1'' @ [CHR 0x0A] @ example_result_line @ [CHR 0x0A] @
                   ''REMARK VINA RESULT: -6.9 1 2'' @ [CHR 0x0A]))
       = Some (example_result_line @ [CHR 0x0A])
   \<and> \<lparr>ligand = ''a.pdbqt'', binding_energy = ''-7.2''\<rparr>
       \<in> set (docking_results (run_docking demo_engine Map.empty [''a.pdbqt'', ''d.pdbqt'']))"
proof -
  have h1: "''a.pdbqt'' \<in> set [''a.pdbqt'', ''d.pdbqt'']" by simp
  have h3: "demo_engine ''a.pdbqt'' =
       Completed 0 (''mode 1'' @ [CHR 0x0A] @ example_result_line @ [CHR 0x0A] @
                    ''REMARK VINA RESULT: -6.9 1 2'' @ [CHR 0x0A])"
    by (simp add: demo_engine_def)
  have h4: "find (startswith result_marker)
        (py_lines (''mode 1'' @ [CHR 0x0A] @ example_result_line @ [CHR 0x0A] @
                   ''REMARK VINA RESULT: -6.9 1 2'' @ [CHR 0x0A]))
       = Some (example_result_line @ [CHR 0x0A])"
    by (simp add: py_lines_def example_result_line_def result_marker_def startswith_def)
  show ?thesis
    using score_is_fourth_token_of_first_result_line [of "''a.pdbqt''" "[''a.pdbqt'', ''d.pdbqt'']"
        demo_engine "''mode 1'' @ [CHR 0x0A] @ example_result_line @ [CHR 0x0A] @
                    ''REMARK VINA RESULT: -6.9 1 2'' @ [CHR 0x0A]" Map.empty]
      h1 h3 h4 demo_ligand_files(1)
    by (simp add: Let_def)
qed

subsection \<open>The summary log\<close>

lemma ligand_score_job_energy: "ligand_score engine l = job_energy engine l"
proof (cases "engine l")
  case Raised
  then show ?thesis by (simp add: ligand_score_def job_energy_def)
next
  case (Completed returncode stdout)
  then show ?thesis
    by (cases stdout)
      (simp_all add: ligand_score_def job_energy_def scan_log_fourth_token py_lines_def
        fourth_token_def)
qed

lemma summary_rows_of_ligands:
  "summary_rows (map (\<lambda>l. \<lparr>ligand = l, binding_energy = f l\<rparr>) ls) =
     concat (map (\<lambda>l. l @ [CHR 0x09] @ f l @ [CHR 0x0A]) ls)"
  by (induction ls) (simp_all add: summary_rows_def summary_row_def)

lemma summary_rows_of_records:
  "summary_rows rs = concat (map (\<lambda>r. ligand r @ [CHR 0x09] @ binding_energy r @ [CHR 0x0A]) rs)"
  by (induction rs) (simp_all add: summary_rows_def summary_row_def)

lemma demo_scores:
  "ligand_score demo_engine ''a.pdbqt'' = Some ''-7.2''"
  "ligand_score demo_engine ''b.pdbqt'' = None"
  "ligand_score demo_engine ''c.PDBQT'' = Some ''-5.1''"
  "ligand_score demo_engine ''d.pdbqt'' = None"
  by (simp_all add: ligand_score_job_energy demo_energy)

text \<open>
  Claim C8. When \<open>run_docking\<close> has finished, the summary log is the header line
  \<open>Ligand<TAB>Binding Energy (kcal/mol)\<close> followed by one line \<open>ligand<TAB>score\<close> for each
  successful ligand file of the listing, in the order of the listing, and nothing else: a
  ligand whose engine process fails or whose output has no score has no line. These lines
  are the records of the returned list, in the same order.
\<close>

theorem summary_is_header_and_rows:
  "summary_log (run_docking engine files listing) =
     ''Ligand'' @ [CHR 0x09] @ ''Binding Energy (kcal/mol)'' @ [CHR 0x0A] @
     concat (map (\<lambda>l. l @ [CHR 0x09] @ the (ligand_score engine l) @ [CHR 0x0A])
       (filter (\<lambda>l. ligand_score engine l \<noteq> None) (filter is_ligand_file listing)))
   \<and> summary_log (run_docking engine files listing) =
     ''Ligand'' @ [CHR 0x09] @ ''Binding Energy (kcal/mol)'' @ [CHR 0x0A] @
     concat (map (\<lambda>r. ligand r @ [CHR 0x09] @ binding_energy r @ [CHR 0x0A])
       (docking_results (run_docking engine files listing)))
   \<and> map ligand (docking_results (run_docking engine files listing)) =
     filter (\<lambda>l. ligand_score engine l \<noteq> None) (filter is_ligand_file listing)"
proof -
  define R where "R = run_docking engine files listing"
  have res: "docking_results R =
      map (\<lambda>l. \<lparr>ligand = l, binding_energy = the (ligand_score engine l)\<rparr>)
        (filter (\<lambda>l. ligand_score engine l \<noteq> None) (filter is_ligand_file listing))"
    by (simp add: R_def run_docking_def foldl_results results_as_filter ligand_score_job_energy)
  have log: "summary_log R = summary_header @ summary_rows (docking_results R)"
    by (simp add: R_def run_docking_def foldl_summary foldl_results)
  have a: "summary_log R =
     ''Ligand'' @ [CHR 0x09] @ ''Binding Energy (kcal/mol)'' @ [CHR 0x0A] @
     concat (map (\<lambda>l. l @ [CHR 0x09] @ the (ligand_score engine l) @ [CHR 0x0A])
       (filter (\<lambda>l. ligand_score engine l \<noteq> None) (filter is_ligand_file listing)))"
    unfolding log res summary_rows_of_ligands by (simp add: summary_header_def)
  have b: "summary_log R =
     ''Ligand'' @ [CHR 0x09] @ ''Binding Energy (kcal/mol)'' @ [CHR 0x0A] @
     concat (map (\<lambda>r. ligand r @ [CHR 0x09] @ binding_energy r @ [CHR 0x0A]) (docking_results R))"
    unfolding log summary_rows_of_records by (simp add: summary_header_def)
  have c: "map ligand (docking_results R) =
     filter (\<lambda>l. ligand_score engine l \<noteq> None) (filter is_ligand_file listing)"
    by (simp add: res o_def)
  show ?thesis
    unfolding R_def [symmetric] using a b c by (intro conjI)
qed

theorem summary_is_header_and_rows_witness:
  "summary_log (run_docking demo_engine Map.empty
       [''a.pdbqt'', ''notes.txt'', ''b.pdbqt'', ''c.PDBQT'', ''d.pdbqt'']) =
     ''Ligand'' @ [CHR 0x09] @ ''Binding Energy (kcal/mol)'' @ [CHR 0x0A] @
     ''a.pdbqt'' @ [CHR 0x09] @ ''-7.2'' @ [CHR 0x0A] @
     ''c.PDBQT'' @ [CHR 0x09] @ ''-5.1'' @ [CHR 0x0A]
   \<and> map ligand (docking_results (run_docking demo_engine Map.empty
       [''a.pdbqt'', ''notes.txt'', ''b.pdbqt'', ''c.PDBQT'', ''d.pdbqt''])) =
     [''a.pdbqt'', ''c.PDBQT'']"
  using summary_is_header_and_rows [of demo_engine Map.empty
      "[''a.pdbqt'', ''notes.txt'', ''b.pdbqt'', ''c.PDBQT'', ''d.pdbqt'']"]
  by (simp add: demo_scores demo_ligand_files)

subsection \<open>Entries of the ligand folder that are not ligand files\<close>

text \<open>
  Claim C9. An entry of the ligand folder whose name does not end in \<open>.pdbqt\<close>, whatever the
  case of its letters, leaves the state of the run as it is: no engine invocation, no
  capture file, no line of the summary log and no record. The run over a listing is the
  run over its entries that end in \<open>.pdbqt\<close>, and the engine is invoked for exactly those,
  in order.
\<close>

theorem only_pdbqt_entries_are_docked:
  "(\<not> endswith ''.pdbqt'' (py_lower entry) \<longrightarrow> dock_ligand engine st entry = st)
   \<and> run_docking engine files listing = run_docking engine files (filter is_ligand_file listing)
   \<and> map fst (invocations (run_docking engine files listing)) = filter is_ligand_file listing"
  by (simp add: run_docking_def foldl_filter foldl_invocations dock_ligand_other
      is_ligand_file_def [symmetric])

theorem only_pdbqt_entries_are_docked_witness:
  "\<not> endswith ''.pdbqt'' (py_lower ''notes.txt'')
   \<and> run_docking demo_engine Map.empty [''notes.txt'', ''a.pdbqt'', ''ligand.mol2''] =
     run_docking demo_engine Map.empty [''a.pdbqt'']
   \<and> map fst (invocations (run_docking demo_engine Map.empty [''notes.txt'', ''a.pdbqt'', ''ligand.mol2'']))
     = [''a.pdbqt'']"
proof -
  have lig: "\<not> is_ligand_file ''notes.txt''" "\<not> is_ligand_file ''ligand.mol2''"
    "is_ligand_file ''a.pdbqt''"
    by (simp_all add: is_ligand_file_def endswith_def py_lower_def py_lower_char_def
        upper_chars_def lower_chars_def)
  have h0: "\<not> endswith ''.pdbqt'' (py_lower ''notes.txt'')"
    by (simp add: endswith_def py_lower_def py_lower_char_def upper_chars_def lower_chars_def)
  note inst = only_pdbqt_entries_are_docked [of "''notes.txt''" demo_engine
      "run_docking demo_engine Map.empty []" Map.empty
      "[''notes.txt'', ''a.pdbqt'', ''ligand.mol2'']"]
  have a: "run_docking demo_engine Map.empty [''notes.txt'', ''a.pdbqt'', ''ligand.mol2''] =
      run_docking demo_engine Map.empty [''a.pdbqt'']"
    using inst lig by simp
  have b: "map fst (invocations (run_docking demo_engine Map.empty
      [''notes.txt'', ''a.pdbqt'', ''ligand.mol2''])) = [''a.pdbqt'']"
    using conjunct2 [OF conjunct2 [OF inst]] lig by simp
  show ?thesis
    using h0 a b by (intro conjI)
qed

section \<open>Properties of the docking box\<close>

lemma update_bounds_eq:
  "update_bounds b (x, y, z) =
     \<lparr>min_x = lower (min_x b) x, min_y = lower (min_y b) y, min_z = lower (min_z b) z,
      max_x = upper (max_x b) x, max_y = upper (max_y b) y, max_z = upper (max_z b) z\<rparr>"
  by (simp add: update_bounds_def lower_def upper_def Let_def)

lemma scan_line_not_atom: "\<not> is_atom_line line \<Longrightarrow> scan_line b line = b"
  by (simp add: scan_line_def)

lemma scan_line_skipped:
  "read_coordinates (py_split line) = None \<Longrightarrow> scan_line b line = b"
  by (simp add: scan_line_def)

lemma foldl_scan_line_coordinates:
  "foldl scan_line b lines = foldl update_bounds b (coordinates lines)"
proof (induction lines arbitrary: b)
  case Nil
  then show ?case by (simp add: coordinates_def List.map_filter_simps)
next
  case (Cons line lines)
  show ?case
  proof (cases "is_atom_line line")
    case True
    then show ?thesis
      using Cons.IH
      by (cases "read_coordinates (py_split line)")
        (simp_all add: coordinates_def scan_line_def List.map_filter_simps)
  next
    case False
    then show ?thesis
      using Cons.IH by (simp add: coordinates_def scan_line_def)
  qed
qed

lemma scan_lines_coordinates: "scan_lines lines = foldl update_bounds initial_bounds (coordinates lines)"
  by (simp add: scan_lines_def foldl_scan_line_coordinates)

lemma coordinates_filter_atom: "coordinates (filter is_atom_line lines) = coordinates lines"
  by (simp add: coordinates_def)

lemma box_from_bounds:
  "scan_lines lines' = scan_lines lines \<Longrightarrow>
     calculate_docking_box lines' padding = calculate_docking_box lines padding"
  by (simp add: calculate_docking_box_def)

text \<open>
  Claim C6. A line that starts with neither \<open>ATOM\<close> nor \<open>HETATM\<close> leaves the bounds as they
  are, whatever its fields hold. The bounds and the box computed from a file are those
  computed from the file without such lines.
\<close>

theorem other_lines_are_ignored:
  "(\<not> is_atom_line line \<longrightarrow> scan_line b line = b)
   \<and> scan_lines (filter is_atom_line lines) = scan_lines lines
   \<and> calculate_docking_box (filter is_atom_line lines) padding = calculate_docking_box lines padding"
proof -
  have "scan_lines (filter is_atom_line lines) = scan_lines lines"
    by (simp add: scan_lines_coordinates coordinates_filter_atom)
  then show ?thesis
    using box_from_bounds [of "filter is_atom_line lines" lines padding]
    by (simp add: scan_line_not_atom)
qed

lemma coordinates_mset:
  assumes "mset (filter is_atom_line lines') = mset (filter is_atom_line lines)"
  shows "mset (coordinates lines') = mset (coordinates lines)"
proof -
  have "mset (List.map_filter f xs) = image_mset (the \<circ> f) (filter_mset (\<lambda>x. f x \<noteq> None) (mset xs))"
    for f :: "string \<Rightarrow> (pyfloat \<times> pyfloat \<times> pyfloat) option" and xs
    by (simp add: List.map_filter_def)
  then show ?thesis
    using assms by (simp add: coordinates_def)
qed

lemma read_coordinates_Some_iff:
  "read_coordinates fs \<noteq> None \<longleftrightarrow>
     9 \<le> length fs \<and> py_float (fs ! 6) \<noteq> None \<and> py_float (fs ! 7) \<noteq> None \<and> py_float (fs ! 8) \<noteq> None"
  by (auto simp: read_coordinates_def split: option.splits)

subsection \<open>Running minimum and maximum\<close>

lemma foldl_update_bounds_fields:
  "min_x (foldl update_bounds b cs) = foldl lower (min_x b) (map (\<lambda>(x, y, z). x) cs)"
  "min_y (foldl update_bounds b cs) = foldl lower (min_y b) (map (\<lambda>(x, y, z). y) cs)"
  "min_z (foldl update_bounds b cs) = foldl lower (min_z b) (map (\<lambda>(x, y, z). z) cs)"
  "max_x (foldl update_bounds b cs) = foldl upper (max_x b) (map (\<lambda>(x, y, z). x) cs)"
  "max_y (foldl update_bounds b cs) = foldl upper (max_y b) (map (\<lambda>(x, y, z). y) cs)"
  "max_z (foldl update_bounds b cs) = foldl upper (max_z b) (map (\<lambda>(x, y, z). z) cs)"
  by (induction cs arbitrary: b; simp add: update_bounds_eq split: prod.splits)+

lemma scan_lines_fields:
  "min_x (scan_lines lines) = foldl lower PInf (xs_of lines)"
  "min_y (scan_lines lines) = foldl lower PInf (ys_of lines)"
  "min_z (scan_lines lines) = foldl lower PInf (zs_of lines)"
  "max_x (scan_lines lines) = foldl upper NInf (xs_of lines)"
  "max_y (scan_lines lines) = foldl upper NInf (ys_of lines)"
  "max_z (scan_lines lines) = foldl upper NInf (zs_of lines)"
  by (simp_all add: scan_lines_coordinates foldl_update_bounds_fields xs_of_def ys_of_def zs_of_def
      initial_bounds_def)

lemma float_lt_trans: "float_lt a b \<Longrightarrow> float_lt b c \<Longrightarrow> float_lt a c"
  by (cases a; cases b; cases c) auto

lemma float_not_lt_trans:
  "\<not> float_lt a b \<Longrightarrow> \<not> float_lt b c \<Longrightarrow> b \<noteq> NaN \<Longrightarrow> \<not> float_lt a c"
  by (cases a; cases b; cases c) auto

lemma float_lt_not_NaN: "float_lt a b \<Longrightarrow> a \<noteq> NaN \<and> b \<noteq> NaN"
  by (cases a; cases b) auto

lemma float_lt_irrefl: "\<not> float_lt a a"
  by (cases a) auto

lemma float_eq_PInf: "float_eq a PInf \<longleftrightarrow> a = PInf"
  by (cases a) auto



lemma foldl_lower_bound:
  assumes "m \<noteq> NaN"
  shows "foldl lower m xs \<noteq> NaN \<and> \<not> float_lt m (foldl lower m xs)
    \<and> (\<forall>x \<in> set xs. \<not> float_lt x (foldl lower m xs))"
  using assms
proof (induction xs arbitrary: m)
  case Nil
  then show ?case by (simp add: float_lt_irrefl)
next
  case (Cons x xs)
  define r where "r = foldl lower (lower m x) xs"
  have m': "lower m x \<noteq> NaN"
    using Cons.prems float_lt_not_NaN [of x m] by (auto simp: lower_def)
  from Cons.IH [OF m'] have ih: "r \<noteq> NaN" "\<not> float_lt (lower m x) r"
    "\<forall>y \<in> set xs. \<not> float_lt y r"
    by (simp_all add: r_def)
  have a: "\<not> float_lt m r"
  proof (cases "float_lt x m")
    case True
    then show ?thesis
      using ih(2) float_lt_trans [of x m r] by (auto simp: lower_def)
  next
    case False
    then show ?thesis using ih(2) by (simp add: lower_def)
  qed
  have b: "\<not> float_lt x r"
  proof (cases "float_lt x m")
    case True
    then show ?thesis using ih(2) by (simp add: lower_def)
  next
    case False
    then show ?thesis
      using a Cons.prems by (rule float_not_lt_trans)
  qed
  show ?case
    using ih a b by (simp add: r_def)
qed








subsection \<open>The coordinates of a file\<close>

lemma coordinates_set:
  "c \<in> set (coordinates lines) \<longleftrightarrow>
     (\<exists>line \<in> set lines. is_atom_line line \<and> read_coordinates (py_split line) = Some c)"
proof -
  have "c \<in> set (List.map_filter f xs) \<longleftrightarrow> (\<exists>x \<in> set xs. f x = Some c)"
    for f :: "string \<Rightarrow> (pyfloat \<times> pyfloat \<times> pyfloat) option" and xs
    by (induction xs) (auto simp: List.map_filter_simps split: option.splits)
  then show ?thesis
    by (auto simp: coordinates_def)
qed

lemma xs_of_set:
  "x \<in> set (xs_of lines) \<longleftrightarrow>
     (\<exists>line \<in> set lines. is_atom_line line \<and>
        (\<exists>y z. read_coordinates (py_split line) = Some (x, y, z)))"
proof -
  have "x \<in> set (xs_of lines) \<longleftrightarrow> (\<exists>y z. (x, y, z) \<in> set (coordinates lines))"
    by (force simp: xs_of_def)
  then show ?thesis
    by (auto simp: coordinates_set)
qed


lemma foldl_lower_stays: "\<forall>x \<in> set xs. \<not> float_lt x m \<Longrightarrow> foldl lower m xs = m"
  by (induction xs) (simp_all add: lower_def)

lemma min_x_is_infinity:
  "float_eq (min_x (scan_lines lines)) PInf \<longleftrightarrow> (\<forall>x \<in> set (xs_of lines). \<not> float_lt x PInf)"
proof
  assume "float_eq (min_x (scan_lines lines)) PInf"
  then have "foldl lower PInf (xs_of lines) = PInf"
    by (cases "foldl lower PInf (xs_of lines)") (simp_all add: scan_lines_fields)
  then show "\<forall>x \<in> set (xs_of lines). \<not> float_lt x PInf"
    using foldl_lower_bound [of PInf "xs_of lines"] by simp
next
  assume "\<forall>x \<in> set (xs_of lines). \<not> float_lt x PInf"
  then have "foldl lower PInf (xs_of lines) = PInf"
    by (rule foldl_lower_stays)
  then show "float_eq (min_x (scan_lines lines)) PInf"
    by (simp add: scan_lines_fields)
qed

lemma demo_scan:
  "scan_lines demo_receptor =
     \<lparr>min_x = Fin 0, min_y = Fin 0, min_z = Fin 0, max_x = Fin 10, max_y = Fin 6, max_z = Fin 4\<rparr>"
  by (simp add: scan_lines_def demo_receptor_def scan_line_def demo_atom_lines demo_coordinates
      update_bounds_def initial_bounds_def float_gt_def)

lemma demo_box:
  "calculate_docking_box demo_receptor (Fin 10) =
     Inr \<lparr>center_x = Fin 5, center_y = Fin 3, center_z = Fin 2,
          size_x = Fin 20, size_y = Fin 16, size_z = Fin 14\<rparr>"
  by (simp add: calculate_docking_box_def demo_scan float_sub_def round64_numeral)

subsection \<open>The centre and the size of the box\<close>



subsection \<open>Lines that are skipped\<close>

lemma read_coordinates_None_iff:
  "read_coordinates fs = None \<longleftrightarrow>
     length fs < 9 \<or> py_float (fs ! 6) = None \<or> py_float (fs ! 7) = None \<or> py_float (fs ! 8) = None"
proof -
  have "read_coordinates fs = None \<longleftrightarrow> \<not> read_coordinates fs \<noteq> None"
    by (cases "read_coordinates fs") auto
  also have "\<dots> \<longleftrightarrow> \<not> (9 \<le> length fs \<and> py_float (fs ! 6) \<noteq> None \<and> py_float (fs ! 7) \<noteq> None
      \<and> py_float (fs ! 8) \<noteq> None)"
    by (simp only: read_coordinates_Some_iff)
  also have "\<dots> \<longleftrightarrow> length fs < 9 \<or> py_float (fs ! 6) = None \<or> py_float (fs ! 7) = None
      \<or> py_float (fs ! 8) = None"
    by auto
  finally show ?thesis .
qed

lemma coordinates_Cons:
  "coordinates (line # lines) =
     (if is_atom_line line
      then (case read_coordinates (py_split line) of
              None \<Rightarrow> coordinates lines
            | Some c \<Rightarrow> c # coordinates lines)
      else coordinates lines)"
  by (simp add: coordinates_def List.map_filter_simps split: option.split)

lemma coordinates_Nil: "coordinates [] = []"
  by (simp add: coordinates_def List.map_filter_simps)

lemma coordinates_filter_read:
  "coordinates (filter (\<lambda>l. is_atom_line l \<and> read_coordinates (py_split l) \<noteq> None) lines) =
     coordinates lines"
proof (induction lines)
  case Nil
  then show ?case by simp
next
  case (Cons line lines)
  then show ?case
    by (cases "read_coordinates (py_split line)") (auto simp: coordinates_Cons)
qed

lemma demo_overflow_boxes:
  "calculate_docking_box [demo_overflow_x] (Fin 10) = Inl ValueError"
  "calculate_docking_box [demo_overflow_y] (Fin 10) =
     Inr \<lparr>center_x = Fin 0, center_y = PInf, center_z = Fin 0,
          size_x = Fin 10, size_y = NaN, size_z = Fin 10\<rparr>"
  by (simp_all add: calculate_docking_box_def scan_lines_def scan_line_def demo_atom_lines
      demo_coordinates update_bounds_def initial_bounds_def float_gt_def float_sub_def
      round64_numeral)


text \<open>
  Claim C10. An atom line with fewer than nine fields, or with a seventh, eighth or ninth
  field that \<open>float\<close> does not accept, leaves the bounds exactly as they were, also when
  others of its coordinate fields are numbers: nothing is assigned before all three fields
  have been converted. So the bounds and the box of a file are those of its atom lines with
  nine fields or more whose three coordinate fields are all accepted.
\<close>

theorem skipped_line_changes_nothing:
  assumes "is_atom_line line"
    and "length (py_split line) < 9 \<or> py_float (py_split line ! 6) = None
      \<or> py_float (py_split line ! 7) = None \<or> py_float (py_split line ! 8) = None"
  shows "scan_line b line = b
    \<and> scan_lines lines =
        scan_lines (filter (\<lambda>l. is_atom_line l \<and> 9 \<le> length (py_split l)
          \<and> py_float (py_split l ! 6) \<noteq> None \<and> py_float (py_split l ! 7) \<noteq> None
          \<and> py_float (py_split l ! 8) \<noteq> None) lines)
    \<and> calculate_docking_box lines padding =
        calculate_docking_box (filter (\<lambda>l. is_atom_line l \<and> 9 \<le> length (py_split l)
          \<and> py_float (py_split l ! 6) \<noteq> None \<and> py_float (py_split l ! 7) \<noteq> None
          \<and> py_float (py_split l ! 8) \<noteq> None) lines) padding"
proof -
  define valid where "valid = (\<lambda>l. is_atom_line l \<and> 9 \<le> length (py_split l)
          \<and> py_float (py_split l ! 6) \<noteq> None \<and> py_float (py_split l ! 7) \<noteq> None
          \<and> py_float (py_split l ! 8) \<noteq> None)"
  have "read_coordinates (py_split line) = None"
    using assms(2) by (simp add: read_coordinates_None_iff)
  then have a: "scan_line b line = b"
    by (rule scan_line_skipped)
  have "valid = (\<lambda>l. is_atom_line l \<and> read_coordinates (py_split l) \<noteq> None)"
    unfolding valid_def by (simp only: read_coordinates_Some_iff)
  then have "coordinates (filter valid lines) = coordinates lines"
    by (simp only: coordinates_filter_read)
  then have s: "scan_lines lines = scan_lines (filter valid lines)"
    by (simp add: scan_lines_coordinates)
  then have "calculate_docking_box lines padding = calculate_docking_box (filter valid lines) padding"
    by (rule box_from_bounds)
  with a s show ?thesis
    unfolding valid_def by simp
qed

theorem skipped_line_changes_nothing_witness:
  "is_atom_line demo_malformed
   \<and> py_float (py_split demo_malformed ! 6) = Some (Fin 50)
   \<and> py_float (py_split demo_malformed ! 7) = Some (Fin 60)
   \<and> py_float (py_split demo_malformed ! 8) = None
   \<and> scan_line (scan_lines demo_receptor) demo_malformed = scan_lines demo_receptor
   \<and> is_atom_line demo_short \<and> length (py_split demo_short) < 9
   \<and> scan_line (scan_lines demo_receptor) demo_short = scan_lines demo_receptor"
proof -
  have m: "py_float (py_split demo_malformed ! 6) = Some (Fin 50)"
    "py_float (py_split demo_malformed ! 7) = Some (Fin 60)"
    "py_float (py_split demo_malformed ! 8) = None"
    by (simp_all add: demo_fields demo_tokens)
  have s: "length (py_split demo_short) < 9"
    by (simp add: demo_fields)
  have a: "scan_line (scan_lines demo_receptor) demo_malformed = scan_lines demo_receptor"
    using skipped_line_changes_nothing [of demo_malformed "scan_lines demo_receptor" "[]" "Fin 0"]
      m(3) demo_atom_lines(5) by blast
  have b: "scan_line (scan_lines demo_receptor) demo_short = scan_lines demo_receptor"
    using skipped_line_changes_nothing [of demo_short "scan_lines demo_receptor" "[]" "Fin 0"]
      s demo_atom_lines(6) by blast
  show ?thesis
    using m s a b demo_atom_lines(5,6) by (intro conjI)
qed


subsection \<open>The error for a file without coordinates\<close>

text \<open>
  What the test \<open>min_x == float('inf')\<close> decides: the error is raised if and only if no atom
  line yields a coordinate triple whose \<open>x\<close> value is below plus infinity.
\<close>

lemma error_iff_no_x_below_infinity:
  "(calculate_docking_box lines padding = Inl ValueError \<longleftrightarrow>
      \<not> (\<exists>line \<in> set lines. is_atom_line line \<and>
           (\<exists>x y z. read_coordinates (py_split line) = Some (x, y, z) \<and> float_lt x PInf)))
   \<and> ((\<exists>line \<in> set lines. is_atom_line line \<and>
           (\<exists>a b c. read_coordinates (py_split line) = Some (Fin a, Fin b, Fin c))) \<longrightarrow>
        (\<exists>box. calculate_docking_box lines padding = Inr box))
   \<and> (\<not> (\<exists>line \<in> set lines. is_atom_line line \<and> read_coordinates (py_split line) \<noteq> None) \<longrightarrow>
        calculate_docking_box lines padding = Inl ValueError)"
proof -
  have iff: "calculate_docking_box lines padding = Inl ValueError \<longleftrightarrow>
      \<not> (\<exists>line \<in> set lines. is_atom_line line \<and>
           (\<exists>x y z. read_coordinates (py_split line) = Some (x, y, z) \<and> float_lt x PInf))"
  proof -
    have "calculate_docking_box lines padding = Inl ValueError \<longleftrightarrow>
        float_eq (min_x (scan_lines lines)) PInf"
      by (simp add: calculate_docking_box_def Let_def)
    also have "\<dots> \<longleftrightarrow> (\<forall>x \<in> set (xs_of lines). \<not> float_lt x PInf)"
      by (rule min_x_is_infinity)
    also have "\<dots> \<longleftrightarrow> \<not> (\<exists>line \<in> set lines. is_atom_line line \<and>
           (\<exists>x y z. read_coordinates (py_split line) = Some (x, y, z) \<and> float_lt x PInf))"
      unfolding Ball_def xs_of_set by blast
    finally show ?thesis .
  qed
  have fin: "\<exists>box. calculate_docking_box lines padding = Inr box"
    if "\<exists>line \<in> set lines. is_atom_line line \<and>
           (\<exists>a b c. read_coordinates (py_split line) = Some (Fin a, Fin b, Fin c))"
  proof -
    from that obtain line a b c where "line \<in> set lines" "is_atom_line line"
      "read_coordinates (py_split line) = Some (Fin a, Fin b, Fin c)" by blast
    moreover have "float_lt (Fin a) PInf" by simp
    ultimately have "calculate_docking_box lines padding \<noteq> Inl ValueError"
      unfolding iff by blast
    then show ?thesis
      by (cases "calculate_docking_box lines padding")
        (auto simp: calculate_docking_box_def Let_def split: if_splits)
  qed
  have none: "calculate_docking_box lines padding = Inl ValueError"
    if "\<not> (\<exists>line \<in> set lines. is_atom_line line \<and> read_coordinates (py_split line) \<noteq> None)"
    unfolding iff using that by force
  show ?thesis
    using iff fin none by blast
qed


lemma demo_overflow_bounds:
  "scan_lines [demo_overflow_x] =
     \<lparr>min_x = PInf, min_y = Fin 0, min_z = Fin 0, max_x = PInf, max_y = Fin 0, max_z = Fin 0\<rparr>"
  by (simp add: scan_lines_def scan_line_def demo_atom_lines demo_coordinates update_bounds_def
      initial_bounds_def float_gt_def)

text \<open>
  Claim C5 does not hold of the code. \<open>float\<close> accepts the field \<open>1e400\<close> and returns plus
  infinity. In the first file the seventh, eighth and ninth fields of the only atom line are
  all converted, the line is not skipped and it sets \<open>max_x\<close> and the bounds of \<open>y\<close> and \<open>z\<close>;
  the error is raised all the same, since \<open>min_x\<close> is still plus infinity. In the second file
  the same value stands in the \<open>y\<close> field: no error is raised, and the box has an infinite
  centre and a NaN size on the \<open>y\<close> axis. The test for a file without coordinates reads
  \<open>min_x\<close> alone.
\<close>

theorem error_test_reads_only_min_x:
  "is_atom_line demo_overflow_x
   \<and> py_float (py_split demo_overflow_x ! 6) = Some PInf
   \<and> py_float (py_split demo_overflow_x ! 7) = Some (Fin 0)
   \<and> py_float (py_split demo_overflow_x ! 8) = Some (Fin 0)
   \<and> scan_lines [demo_overflow_x] =
       \<lparr>min_x = PInf, min_y = Fin 0, min_z = Fin 0, max_x = PInf, max_y = Fin 0, max_z = Fin 0\<rparr>
   \<and> calculate_docking_box [demo_overflow_x] (Fin 10) = Inl ValueError
   \<and> is_atom_line demo_overflow_y
   \<and> py_float (py_split demo_overflow_y ! 6) = Some (Fin 0)
   \<and> py_float (py_split demo_overflow_y ! 7) = Some PInf
   \<and> py_float (py_split demo_overflow_y ! 8) = Some (Fin 0)
   \<and> calculate_docking_box [demo_overflow_y] (Fin 10) =
       Inr \<lparr>center_x = Fin 0, center_y = PInf, center_z = Fin 0,
            size_x = Fin 10, size_y = NaN, size_z = Fin 10\<rparr>"
  by (simp add: demo_atom_lines demo_fields demo_tokens overflow_token demo_overflow_boxes
      demo_overflow_bounds)

subsection \<open>Other lines, on the example receptor\<close>

theorem other_lines_are_ignored_witness:
  "\<not> is_atom_line demo_remark
   \<and> scan_line (scan_lines demo_receptor) demo_remark = scan_lines demo_receptor
   \<and> calculate_docking_box (demo_remark # demo_receptor) (Fin 10) =
       Inr \<lparr>center_x = Fin 5, center_y = Fin 3, center_z = Fin 2,
            size_x = Fin 20, size_y = Fin 16, size_z = Fin 14\<rparr>"
proof -
  have f: "filter is_atom_line (demo_remark # demo_receptor) = filter is_atom_line demo_receptor"
    using demo_atom_lines(4) by simp
  have a: "scan_line (scan_lines demo_receptor) demo_remark = scan_lines demo_receptor"
    using other_lines_are_ignored [of demo_remark "scan_lines demo_receptor" "[]" "Fin 10"]
      demo_atom_lines(4) by blast
  have "calculate_docking_box (demo_remark # demo_receptor) (Fin 10) =
      calculate_docking_box (filter is_atom_line (demo_remark # demo_receptor)) (Fin 10)"
    using other_lines_are_ignored [of demo_remark "scan_lines demo_receptor"
        "demo_remark # demo_receptor" "Fin 10"] by simp
  also have "\<dots> = calculate_docking_box demo_receptor (Fin 10)"
    unfolding f
    using other_lines_are_ignored [of demo_remark "scan_lines demo_receptor" demo_receptor "Fin 10"]
    by simp
  finally show ?thesis
    using a demo_atom_lines(4) by (simp add: demo_box)
qed

subsection \<open>The order of the atom lines\<close>

lemma forget_sign_eq_iff:
  "forget_sign a = forget_sign b \<longleftrightarrow> (a = NaN \<and> b = NaN) \<or> float_eq a b"
  by (cases a; cases b) auto

lemma float_lt_forget_sign: "float_lt (forget_sign a) (forget_sign b) = float_lt a b"
  by (cases a; cases b) auto

lemma forget_sign_lower: "forget_sign (lower m x) = lower (forget_sign m) (forget_sign x)"
  by (simp add: lower_def float_lt_forget_sign)

lemma forget_sign_upper: "forget_sign (upper m x) = upper (forget_sign m) (forget_sign x)"
  by (simp add: upper_def float_gt_def float_lt_forget_sign)

lemma forget_sign_foldl_lower:
  "forget_sign (foldl lower m xs) = foldl lower (forget_sign m) (map forget_sign xs)"
  by (induction xs arbitrary: m) (simp_all add: forget_sign_lower)

lemma forget_sign_foldl_upper:
  "forget_sign (foldl upper m xs) = foldl upper (forget_sign m) (map forget_sign xs)"
  by (induction xs arbitrary: m) (simp_all add: forget_sign_upper)

lemma forget_sign_not_NegZero: "forget_sign a \<noteq> NegZero"
  by (cases a) auto

lemma lower_commute:
  "x \<noteq> NegZero \<Longrightarrow> y \<noteq> NegZero \<Longrightarrow> lower (lower m x) y = lower (lower m y) x"
  by (cases m; cases x; cases y) (auto simp: lower_def)

lemma upper_commute:
  "x \<noteq> NegZero \<Longrightarrow> y \<noteq> NegZero \<Longrightarrow> upper (upper m x) y = upper (upper m y) x"
  by (cases m; cases x; cases y) (auto simp: upper_def float_gt_def)

lemma foldl_lower_mset:
  assumes "mset xs = mset ys" and "NegZero \<notin> set xs"
  shows "foldl lower m xs = foldl lower m ys"
proof -
  have "fold (\<lambda>x m. lower m x) xs = fold (\<lambda>x m. lower m x) ys"
  proof (rule fold_multiset_equiv)
    fix x y
    assume "x \<in> set xs" "y \<in> set xs"
    then have "x \<noteq> NegZero" "y \<noteq> NegZero"
      using assms(2) by auto
    then show "(\<lambda>m. lower m x) \<circ> (\<lambda>m. lower m y) = (\<lambda>m. lower m y) \<circ> (\<lambda>m. lower m x)"
      using lower_commute [of y x] by (simp add: fun_eq_iff)
  qed (rule assms(1))
  then show ?thesis
    by (simp add: foldl_conv_fold)
qed

lemma foldl_upper_mset:
  assumes "mset xs = mset ys" and "NegZero \<notin> set xs"
  shows "foldl upper m xs = foldl upper m ys"
proof -
  have "fold (\<lambda>x m. upper m x) xs = fold (\<lambda>x m. upper m x) ys"
  proof (rule fold_multiset_equiv)
    fix x y
    assume "x \<in> set xs" "y \<in> set xs"
    then have "x \<noteq> NegZero" "y \<noteq> NegZero"
      using assms(2) by auto
    then show "(\<lambda>m. upper m x) \<circ> (\<lambda>m. upper m y) = (\<lambda>m. upper m y) \<circ> (\<lambda>m. upper m x)"
      using upper_commute [of y x] by (simp add: fun_eq_iff)
  qed (rule assms(1))
  then show ?thesis
    by (simp add: foldl_conv_fold)
qed

lemma forget_sign_foldl_lower_mset:
  assumes "mset xs = mset ys"
  shows "forget_sign (foldl lower m xs) = forget_sign (foldl lower m ys)"
proof -
  have "mset (map forget_sign xs) = mset (map forget_sign ys)"
    using assms by (metis mset_map)
  moreover have "NegZero \<notin> set (map forget_sign xs)"
    using forget_sign_not_NegZero by (metis ex_map_conv)
  ultimately show ?thesis
    unfolding forget_sign_foldl_lower by (rule foldl_lower_mset)
qed

lemma forget_sign_foldl_upper_mset:
  assumes "mset xs = mset ys"
  shows "forget_sign (foldl upper m xs) = forget_sign (foldl upper m ys)"
proof -
  have "mset (map forget_sign xs) = mset (map forget_sign ys)"
    using assms by (metis mset_map)
  moreover have "NegZero \<notin> set (map forget_sign xs)"
    using forget_sign_not_NegZero by (metis ex_map_conv)
  ultimately show ?thesis
    unfolding forget_sign_foldl_upper by (rule foldl_upper_mset)
qed

lemma forget_sign_add:
  "forget_sign a = forget_sign a' \<Longrightarrow> forget_sign b = forget_sign b' \<Longrightarrow>
     forget_sign (float_add a b) = forget_sign (float_add a' b')"
  by (cases a; cases a'; cases b; cases b') (auto simp: round64_def)

lemma forget_sign_neg:
  "forget_sign a = forget_sign a' \<Longrightarrow> forget_sign (float_neg a) = forget_sign (float_neg a')"
  by (cases a; cases a') (auto split: if_splits)

lemma forget_sign_sub:
  "forget_sign a = forget_sign a' \<Longrightarrow> forget_sign b = forget_sign b' \<Longrightarrow>
     forget_sign (float_sub a b) = forget_sign (float_sub a' b')"
  unfolding float_sub_def by (intro forget_sign_add forget_sign_neg)

lemma forget_sign_div_two:
  "forget_sign a = forget_sign a' \<Longrightarrow>
     forget_sign (float_div_two a) = forget_sign (float_div_two a')"
  by (cases a; cases a') (auto simp: round64_def)

lemma forget_sign_PInf: "forget_sign a = PInf \<longleftrightarrow> a = PInf"
  by (cases a) auto

lemma axes_mset:
  assumes "mset (filter is_atom_line lines') = mset (filter is_atom_line lines)"
  shows "mset (xs_of lines') = mset (xs_of lines)" "mset (ys_of lines') = mset (ys_of lines)"
    "mset (zs_of lines') = mset (zs_of lines)"
  using coordinates_mset [OF assms] unfolding xs_of_def ys_of_def zs_of_def
  by (metis mset_map)+

lemma box_up_to_sign:
  assumes "forget_sign_bounds (scan_lines lines') = forget_sign_bounds (scan_lines lines)"
  shows "map_sum id forget_sign_box (calculate_docking_box lines' padding) =
     map_sum id forget_sign_box (calculate_docking_box lines padding)"
proof -
  define b' where "b' = scan_lines lines'"
  define b where "b = scan_lines lines"
  have eq: "forget_sign (min_x b') = forget_sign (min_x b)"
    "forget_sign (min_y b') = forget_sign (min_y b)"
    "forget_sign (min_z b') = forget_sign (min_z b)"
    "forget_sign (max_x b') = forget_sign (max_x b)"
    "forget_sign (max_y b') = forget_sign (max_y b)"
    "forget_sign (max_z b') = forget_sign (max_z b)"
    using assms by (simp_all add: forget_sign_bounds_def b'_def b_def)
  have inf: "min_x b' = PInf \<longleftrightarrow> min_x b = PInf"
    using eq(1) by (metis forget_sign_PInf)
  have p: "forget_sign padding = forget_sign padding" by simp
  show ?thesis
    unfolding calculate_docking_box_def Let_def b'_def [symmetric] b_def [symmetric]
    using inf
    by (simp add: float_eq_PInf forget_sign_box_def
        forget_sign_div_two [OF forget_sign_add [OF eq(1) eq(4)]]
        forget_sign_div_two [OF forget_sign_add [OF eq(2) eq(5)]]
        forget_sign_div_two [OF forget_sign_add [OF eq(3) eq(6)]]
        forget_sign_add [OF forget_sign_sub [OF eq(4) eq(1)] p]
        forget_sign_add [OF forget_sign_sub [OF eq(5) eq(2)] p]
        forget_sign_add [OF forget_sign_sub [OF eq(6) eq(3)] p])
qed

lemma demo_zero_boxes:
  "calculate_docking_box [demo_atom_1, demo_neg_zero] (Fin 10) =
     Inr \<lparr>center_x = Fin 0, center_y = Fin 0, center_z = Fin 0,
          size_x = Fin 10, size_y = Fin 10, size_z = Fin 10\<rparr>"
  "calculate_docking_box [demo_neg_zero, demo_atom_1] (Fin 10) =
     Inr \<lparr>center_x = NegZero, center_y = Fin 0, center_z = Fin 0,
          size_x = Fin 10, size_y = Fin 10, size_z = Fin 10\<rparr>"
  by (simp_all add: calculate_docking_box_def scan_lines_def scan_line_def demo_atom_lines
      demo_coordinates update_bounds_def initial_bounds_def float_gt_def float_sub_def
      round64_numeral)

lemma demo_receptor_axes:
  "xs_of demo_receptor = [Fin 0, Fin 10]" "ys_of demo_receptor = [Fin 0, Fin 6]"
  "zs_of demo_receptor = [Fin 0, Fin 4]"
  by (simp_all add: xs_of_def ys_of_def zs_of_def demo_receptor_def coordinates_Cons
      coordinates_Nil demo_atom_lines demo_coordinates)

text \<open>
  Claim C7, as the code has it. If the atom lines of one file are a permutation of the atom
  lines of another, the two files have the same bounds and the same box up to the sign of
  a zero: both runs raise the error or neither does, and each value of the one is equal
  under \<open>==\<close> to the value of the other, or both are NaN. If no coordinate read from the
  file is \<open>-0.0\<close>, the bounds and the box are identical.
\<close>

theorem order_of_atom_lines_up_to_zero_sign:
  assumes "mset (filter is_atom_line lines') = mset (filter is_atom_line lines)"
  shows "forget_sign_bounds (scan_lines lines') = forget_sign_bounds (scan_lines lines)
    \<and> map_sum id forget_sign_box (calculate_docking_box lines' padding) =
        map_sum id forget_sign_box (calculate_docking_box lines padding)
    \<and> (NegZero \<notin> set (xs_of lines) \<union> set (ys_of lines) \<union> set (zs_of lines) \<longrightarrow>
          scan_lines lines' = scan_lines lines
          \<and> calculate_docking_box lines' padding = calculate_docking_box lines padding)"
proof -
  note ax = axes_mset [OF assms]
  have a: "forget_sign_bounds (scan_lines lines') = forget_sign_bounds (scan_lines lines)"
    unfolding forget_sign_bounds_def scan_lines_fields
    using forget_sign_foldl_lower_mset [OF ax(1)] forget_sign_foldl_lower_mset [OF ax(2)]
      forget_sign_foldl_lower_mset [OF ax(3)] forget_sign_foldl_upper_mset [OF ax(1)]
      forget_sign_foldl_upper_mset [OF ax(2)] forget_sign_foldl_upper_mset [OF ax(3)]
    by simp
  have b: "map_sum id forget_sign_box (calculate_docking_box lines' padding) =
        map_sum id forget_sign_box (calculate_docking_box lines padding)"
    using a by (rule box_up_to_sign)
  have c: "scan_lines lines' = scan_lines lines
      \<and> calculate_docking_box lines' padding = calculate_docking_box lines padding"
    if "NegZero \<notin> set (xs_of lines) \<union> set (ys_of lines) \<union> set (zs_of lines)"
  proof -
    have n: "NegZero \<notin> set (xs_of lines')" "NegZero \<notin> set (ys_of lines')"
      "NegZero \<notin> set (zs_of lines')"
      using that ax by (metis UnCI mset_eq_setD)+
    have "scan_lines lines' = scan_lines lines"
      by (rule bounds.equality)
        (simp_all add: scan_lines_fields foldl_lower_mset [OF ax(1) n(1)]
          foldl_lower_mset [OF ax(2) n(2)] foldl_lower_mset [OF ax(3) n(3)]
          foldl_upper_mset [OF ax(1) n(1)] foldl_upper_mset [OF ax(2) n(2)]
          foldl_upper_mset [OF ax(3) n(3)])
    then show ?thesis
      using box_from_bounds [of lines' lines padding] by simp
  qed
  show ?thesis
    using a b c by blast
qed

theorem order_of_atom_lines_up_to_zero_sign_witness:
  "mset (filter is_atom_line [demo_neg_zero, demo_atom_1]) =
     mset (filter is_atom_line [demo_atom_1, demo_neg_zero])
   \<and> map_sum id forget_sign_box (calculate_docking_box [demo_neg_zero, demo_atom_1] (Fin 10)) =
       Inr \<lparr>center_x = Fin 0, center_y = Fin 0, center_z = Fin 0,
            size_x = Fin 10, size_y = Fin 10, size_z = Fin 10\<rparr>
   \<and> mset (filter is_atom_line [demo_atom_2, demo_remark, demo_atom_1]) =
       mset (filter is_atom_line demo_receptor)
   \<and> NegZero \<notin> set (xs_of demo_receptor) \<union> set (ys_of demo_receptor) \<union> set (zs_of demo_receptor)
   \<and> calculate_docking_box [demo_atom_2, demo_remark, demo_atom_1] (Fin 10) =
       Inr \<lparr>center_x = Fin 5, center_y = Fin 3, center_z = Fin 2,
            size_x = Fin 20, size_y = Fin 16, size_z = Fin 14\<rparr>"
proof -
  have h1: "mset (filter is_atom_line [demo_neg_zero, demo_atom_1]) =
     mset (filter is_atom_line [demo_atom_1, demo_neg_zero])"
    by (simp add: demo_atom_lines)
  have h2: "mset (filter is_atom_line [demo_atom_2, demo_remark, demo_atom_1]) =
       mset (filter is_atom_line demo_receptor)"
    by (simp add: demo_receptor_def demo_atom_lines)
  have n: "NegZero \<notin> set (xs_of demo_receptor) \<union> set (ys_of demo_receptor) \<union> set (zs_of demo_receptor)"
    by (simp add: demo_receptor_axes)
  have a: "map_sum id forget_sign_box (calculate_docking_box [demo_neg_zero, demo_atom_1] (Fin 10)) =
       Inr \<lparr>center_x = Fin 0, center_y = Fin 0, center_z = Fin 0,
            size_x = Fin 10, size_y = Fin 10, size_z = Fin 10\<rparr>"
    using conjunct1 [OF conjunct2 [OF order_of_atom_lines_up_to_zero_sign [OF h1, of "Fin 10"]]]
    by (simp add: demo_zero_boxes forget_sign_box_def)
  have b: "calculate_docking_box [demo_atom_2, demo_remark, demo_atom_1] (Fin 10) =
       Inr \<lparr>center_x = Fin 5, center_y = Fin 3, center_z = Fin 2,
            size_x = Fin 20, size_y = Fin 16, size_z = Fin 14\<rparr>"
    using conjunct2 [OF conjunct2 [OF order_of_atom_lines_up_to_zero_sign [OF h2, of "Fin 10"]]] n
    by (simp add: demo_box)
  show ?thesis
    using h1 a h2 n b by (intro conjI)
qed

text \<open>
  Claim C7, as stated, fails. Python has two zeros, and the running minimum and maximum keep
  the first of two equal values. With the two atom lines \<open>0.000 0.000 0.000\<close> and
  \<open>-0.000 0.000 0.000\<close>, the centre of the box on the \<open>x\<close> axis is \<open>0.0\<close> in one order and
  \<open>-0.0\<close> in the other.
\<close>

theorem order_of_atom_lines_counterexample:
  "mset (filter is_atom_line [demo_neg_zero, demo_atom_1]) =
     mset (filter is_atom_line [demo_atom_1, demo_neg_zero])
   \<and> calculate_docking_box [demo_atom_1, demo_neg_zero] (Fin 10) =
       Inr \<lparr>center_x = Fin 0, center_y = Fin 0, center_z = Fin 0,
            size_x = Fin 10, size_y = Fin 10, size_z = Fin 10\<rparr>
   \<and> calculate_docking_box [demo_neg_zero, demo_atom_1] (Fin 10) =
       Inr \<lparr>center_x = NegZero, center_y = Fin 0, center_z = Fin 0,
            size_x = Fin 10, size_y = Fin 10, size_z = Fin 10\<rparr>
   \<and> calculate_docking_box [demo_neg_zero, demo_atom_1] (Fin 10) \<noteq>
       calculate_docking_box [demo_atom_1, demo_neg_zero] (Fin 10)"
  by (simp add: demo_atom_lines demo_zero_boxes)

section \<open>A conversion that fails\<close>

lemma clean_smiles_examples:
  "clean_smiles ''CCN.Cl'' = ''CCN''"
  "clean_smiles ''CCO'' = ''CCO''"
  "clean_smiles (''CC.O'' @ [CHR 0x0A]) = ''CC'' @ [CHR 0x0A]"
  "clean_smiles (''a.b'' @ [CHR 0x0A] @ ''c'') = ''a.b'' @ [CHR 0x0A] @ ''c''"
  "clean_smiles (''a'' @ [CHR 0x0A] @ ''b.c'') = ''a'' @ [CHR 0x0A] @ ''b''"
  "clean_smiles (''a.b'' @ [CHR 0x0A, CHR 0x0A]) = ''a.b'' @ [CHR 0x0A, CHR 0x0A]"
  "clean_smiles (''a.b'' @ [CHR 0x0A] @ ''.c'' @ [CHR 0x0A]) = ''a.b'' @ [CHR 0x0A, CHR 0x0A]"
  by (simp_all add: clean_smiles_def)

lemma prepare_ligands_failure:
  assumes "convert_smiles_to_mol2 obabel (clean_smiles smile) name = Inl e"
  shows "prepare_ligands obabel (before @ (name, smile) # after) =
     (fst (prepare_ligands obabel before),
      case snd (prepare_ligands obabel before) of None \<Rightarrow> Some e | Some e' \<Rightarrow> Some e')"
  using assms
  by (induction before) (auto split: sum.splits prod.splits option.splits)

text \<open>
  Claim C4 does not hold of the code. With three molecules, the second of which Open Babel
  cannot convert, the loop of \<open>run_pipeline\<close> writes the file of the first molecule and ends
  with \<open>CalledProcessError\<close>: \<open>run_pipeline\<close> is aborted, whatever its later steps are, and the
  third molecule is never converted. \<open>convert_from_excel\<close>, on the same rows, drops the second
  molecule and converts the third.
\<close>

theorem conversion_failure_aborts_pipeline:
  "prepare_ligands demo_obabel demo_molecules = ([''mol_a.mol2''], Some CalledProcessError)
   \<and> run_pipeline demo_obabel demo_molecules later_steps = Inl CalledProcessError
   \<and> convert_from_excel demo_obabel demo_molecules = [''mol_a.mol2'', ''mol_c.mol2'']"
  by (simp add: run_pipeline_def demo_molecules_def demo_obabel_def convert_smiles_to_mol2_def
      clean_smiles_def sanitize_name_def py_strip_def is_space_def)

end
